theory Spec2Isabelle
  imports Complex_Main "HOL-Library.Word"
begin

section \<open>Configuration\<close>

text \<open>
  The \<^verbatim>\<open>#define\<close> constants of \<^verbatim>\<open>main.cpp\<close>. The screen dimensions are C \<^verbatim>\<open>int\<close>s
  that the code promotes to \<^verbatim>\<open>float\<close> where it mixes them with coordinates.
\<close>

abbreviation SCREEN_WIDTH :: int where "SCREEN_WIDTH \<equiv> 480"
abbreviation SCREEN_HEIGHT :: int where "SCREEN_HEIGHT \<equiv> 320"
abbreviation MAX_ENEMIES :: nat where "MAX_ENEMIES \<equiv> 20"
abbreviation MAX_PLAYER_BULLETS :: nat where "MAX_PLAYER_BULLETS \<equiv> 30"
abbreviation MAX_ENEMY_BULLETS :: nat where "MAX_ENEMY_BULLETS \<equiv> 40"
abbreviation MAX_POWERUPS :: nat where "MAX_POWERUPS \<equiv> 5"
abbreviation MAX_EXPLOSIONS :: nat where "MAX_EXPLOSIONS \<equiv> 10"
abbreviation MAX_PARTICLES :: nat where "MAX_PARTICLES \<equiv> 50"

section \<open>Utility structures\<close>

text \<open>
  \<^verbatim>\<open>struct Vec2\<close> and \<^verbatim>\<open>struct Rect\<close>. The C \<^verbatim>\<open>float\<close> coordinates are modelled as
  \<^typ>\<open>real\<close>: rounding is not modelled. \<^verbatim>\<open>Rect\<close> is kept polymorphic in the coordinate
  type, since \<^verbatim>\<open>Rect::intersects\<close> only adds and compares.
\<close>

datatype Vec2 = Vec2 (vec_x: real) (vec_y: real)

definition vadd :: "Vec2 \<Rightarrow> Vec2 \<Rightarrow> Vec2" where
  "vadd a v = Vec2 (vec_x a + vec_x v) (vec_y a + vec_y v)"

definition vsub :: "Vec2 \<Rightarrow> Vec2 \<Rightarrow> Vec2" where
  "vsub a v = Vec2 (vec_x a - vec_x v) (vec_y a - vec_y v)"

definition vscale :: "Vec2 \<Rightarrow> real \<Rightarrow> Vec2" where
  "vscale a s = Vec2 (vec_x a * s) (vec_y a * s)"

definition vlength :: "Vec2 \<Rightarrow> real" where
  "vlength a = sqrt (vec_x a * vec_x a + vec_y a * vec_y a)"

definition normalize :: "Vec2 \<Rightarrow> Vec2" where
  "normalize a =
     (let len = vlength a
      in if len > 0 then Vec2 (vec_x a / len) (vec_y a / len) else Vec2 0 0)"

datatype 'a Rect = Rect (rect_x: 'a) (rect_y: 'a) (rect_w: 'a) (rect_h: 'a)

definition intersects :: "'a::{plus,ord} Rect \<Rightarrow> 'a Rect \<Rightarrow> bool" where
  "intersects a r \<longleftrightarrow>
     rect_x a < rect_x r + rect_w r \<and> rect_x a + rect_w a > rect_x r \<and>
     rect_y a < rect_y r + rect_h r \<and> rect_y a + rect_h a > rect_y r"

text \<open>
  The reading of the specification's sentence on the test: the closed x-intervals and the
  closed y-intervals of the two boxes both have a common point, so that boxes touching at an
  edge overlap.
\<close>

definition spec_overlap_touching :: "real Rect \<Rightarrow> real Rect \<Rightarrow> bool" where
  "spec_overlap_touching a r \<longleftrightarrow>
     rect_x a \<le> rect_x r + rect_w r \<and> rect_x r \<le> rect_x a + rect_w a \<and>
     rect_y a \<le> rect_y r + rect_h r \<and> rect_y r \<le> rect_y a + rect_h a"

text \<open>
  Contact at an edge: on some axis, the maximum coordinate \<open>x + w\<close> (or \<open>y + h\<close>) of one
  box equals the minimum coordinate of the other.
\<close>

definition edgeContact :: "real Rect \<Rightarrow> real Rect \<Rightarrow> bool" where
  "edgeContact a r \<longleftrightarrow>
     rect_x a + rect_w a = rect_x r \<or> rect_x r + rect_w r = rect_x a \<or>
     rect_y a + rect_h a = rect_y r \<or> rect_y r + rect_h r = rect_y a"

section \<open>Sound and input systems\<close>

text \<open>
  \<^verbatim>\<open>class SoundSystem\<close>: only the fields; the tone generator itself is hardware.
  \<^verbatim>\<open>playTone\<close> reads the millisecond clock once.
\<close>

datatype SoundEffect = SHOOT | SND_EXPLOSION | HIT | POWERUP | ENEMY_SHOOT

record SoundSystem =
  currentSound :: "int \<times> int"
  soundStartTime :: "32 word"
  isPlaying :: bool

fun tone :: "SoundEffect \<Rightarrow> int \<times> int" where
  "tone SHOOT = (1500, 50)"
| "tone SND_EXPLOSION = (300, 200)"
| "tone HIT = (200, 100)"
| "tone POWERUP = (2000, 150)"
| "tone ENEMY_SHOOT = (800, 40)"

text \<open>
  \<^verbatim>\<open>class InputSystem\<close> as the game reads it after \<^verbatim>\<open>input.update()\<close>: the movement
  vector, the fire flag and the touch flag of the current frame.
\<close>

record InputSystem =
  joystickPos :: Vec2
  firePressed :: bool
  isTouching :: bool

section \<open>Entity system\<close>

datatype EntityType =
  PLAYER | ENEMY_BASIC | ENEMY_FAST | ENEMY_TANK | BULLET_PLAYER | BULLET_ENEMY
  | POWERUP_WEAPON | POWERUP_HEALTH | EXPLOSION | PARTICLE

text \<open>
  Modelled from the spec: the colour constants \<^verbatim>\<open>TFT_...\<close> of the graphics library, which
  is not part of the repository; the specification has the colour as an opaque visual
  attribute, so the constants are kept by name.
\<close>

datatype Color =
  TFT_BLACK | TFT_RED | TFT_YELLOW | TFT_PURPLE | TFT_WHITE | TFT_ORANGE | TFT_GREEN
  | TFT_MAGENTA | TFT_CYAN

text \<open>
  \<^verbatim>\<open>struct Entity\<close>; its field \<^verbatim>\<open>type\<close> is \<open>etype\<close> here. The \<^verbatim>\<open>int\<close> fields
  \<open>health\<close> and \<open>animFrame\<close> are modelled as unbounded integers: they stay within a few
  tens of their initial values. \<^verbatim>\<open>unsigned long\<close> timestamps are 32-bit words, whose
  subtraction wraps as in C.
\<close>

record Entity =
  active :: bool
  etype :: EntityType
  pos :: Vec2
  vel :: Vec2
  width :: real
  height :: real
  health :: int
  color :: Color
  animFrame :: int
  lastAnimTime :: "32 word"

text \<open>\<^verbatim>\<open>Entity::init\<close>, with the value that \<^verbatim>\<open>millis()\<close> returned as last argument.\<close>

definition Entity_init ::
  "EntityType \<Rightarrow> Vec2 \<Rightarrow> Vec2 \<Rightarrow> real \<Rightarrow> real \<Rightarrow> int \<Rightarrow> Color \<Rightarrow> 32 word \<Rightarrow> Entity" where
  "Entity_init t p v w h hp col now =
     \<lparr>active = True, etype = t, pos = p, vel = v, width = w, height = h, health = hp,
      color = col, animFrame = 0, lastAnimTime = now\<rparr>"

definition getRect :: "Entity \<Rightarrow> real Rect" where
  "getRect e = Rect (vec_x (pos e) - width e / 2) (vec_y (pos e) - height e / 2) (width e) (height e)"

definition deactivate :: "Entity \<Rightarrow> Entity" where
  "deactivate e = e\<lparr>active := False\<rparr>"

section \<open>Game state\<close>

datatype GameState = TITLE | PLAYING | GAME_OVER

text \<open>
  \<^verbatim>\<open>class Game\<close>, together with what its methods read and write outside the object: the
  global \<^verbatim>\<open>sound\<close> system, the millisecond clock and the random number generator. The
  clock is the sequence of values that the successive calls of \<^verbatim>\<open>millis()\<close> made by these
  methods return, and the generator the sequence of raw values that their successive draws
  return; \<open>clockPos\<close> and \<open>rngPos\<close> count the calls made so far. Both sequences are
  arbitrary.

  The \<^verbatim>\<open>int score\<close> is a 32-bit word: \<^verbatim>\<open>score += 100\<close> wraps around on the target, and
  \<open>sint\<close> reads the signed value. The counters \<open>lives\<close>, \<open>wave\<close> and
  \<open>playerWeaponLevel\<close> are modelled as unbounded integers: they stay between \<open>-59\<close> and 5.
\<close>

record Game =
  player :: Entity
  enemies :: "Entity list"
  playerBullets :: "Entity list"
  enemyBullets :: "Entity list"
  powerups :: "Entity list"
  explosions :: "Entity list"
  particles :: "Entity list"
  score :: "32 word"
  lives :: int
  wave :: int
  scrollY :: real
  lastEnemySpawn :: "32 word"
  lastPlayerShot :: "32 word"
  playerWeaponLevel :: int
  state :: GameState
  sound :: SoundSystem
  clock :: "nat \<Rightarrow> 32 word"
  clockPos :: nat
  rng :: "nat \<Rightarrow> nat"
  rngPos :: nat

text \<open>The arrays of a \<^verbatim>\<open>Game\<close> object have their declared sizes.\<close>

definition wf :: "Game \<Rightarrow> bool" where
  "wf g \<longleftrightarrow>
     length (enemies g) = MAX_ENEMIES \<and> length (playerBullets g) = MAX_PLAYER_BULLETS \<and>
     length (enemyBullets g) = MAX_ENEMY_BULLETS \<and> length (powerups g) = MAX_POWERUPS \<and>
     length (explosions g) = MAX_EXPLOSIONS \<and> length (particles g) = MAX_PARTICLES"

text \<open>
  Modelled from the spec: the Arduino core's \<^verbatim>\<open>millis()\<close>, which is not part of the
  repository; the specification has the cooldowns compare elapsed wall-clock time. A call
  returns the next value of the clock sequence.
\<close>

definition millis :: "Game \<Rightarrow> 32 word \<times> Game" where
  "millis g = (clock g (clockPos g), g\<lparr>clockPos := clockPos g + 1\<rparr>)"

text \<open>
  Modelled from the spec: the Arduino core's \<^verbatim>\<open>random(howsmall, howbig)\<close>, which is not part
  of the repository; the specification has it draw a uniform integer in
  \<open>[howsmall, howbig)\<close>. The raw value of the generator is reduced modulo the width of
  the range, as the core does.
\<close>

definition random :: "int \<Rightarrow> int \<Rightarrow> Game \<Rightarrow> int \<times> Game" where
  "random howsmall howbig g =
     (if howsmall \<ge> howbig then (howsmall, g)
      else (howsmall + int (rng g (rngPos g)) mod (howbig - howsmall),
            g\<lparr>rngPos := rngPos g + 1\<rparr>))"

text \<open>\<^verbatim>\<open>SoundSystem::play\<close> on the global \<^verbatim>\<open>sound\<close>.\<close>

definition play :: "SoundEffect \<Rightarrow> Game \<Rightarrow> Game" where
  "play effect g =
     (let (now, g1) = millis g
      in g1\<lparr>sound := \<lparr>currentSound = tone effect, soundStartTime = now, isPlaying = True\<rparr>\<rparr>)"

text \<open>
  The scan \<^verbatim>\<open>for (int i = 0; i < n; i++) if (!pool[i].active) { ...; break; }\<close> of every
  spawn function: the first inactive index below \<open>n\<close>, if there is one.
\<close>

definition findFree :: "Entity list \<Rightarrow> nat \<Rightarrow> nat option" where
  "findFree pool n = find (\<lambda>i. \<not> active (pool ! i)) [0..<n]"

definition init :: "Game \<Rightarrow> Game" where
  "init g =
     (let g = g\<lparr>state := TITLE, score := 0, lives := 3, wave := 1, scrollY := 0,
                playerWeaponLevel := 1, lastEnemySpawn := 0, lastPlayerShot := 0\<rparr>;
          (now, g) = millis g;
          g = g\<lparr>player := Entity_init PLAYER
                  (Vec2 (real_of_int (SCREEN_WIDTH div 2)) (real_of_int (SCREEN_HEIGHT - 60)))
                  (Vec2 0 0) 24 24 100 TFT_CYAN now\<rparr>;
          g = fold (\<lambda>i g. g\<lparr>enemies := (enemies g)[i := (enemies g ! i)\<lparr>active := False\<rparr>]\<rparr>)
                [0..<MAX_ENEMIES] g;
          g = fold (\<lambda>i g. g\<lparr>playerBullets :=
                  (playerBullets g)[i := (playerBullets g ! i)\<lparr>active := False\<rparr>]\<rparr>)
                [0..<MAX_PLAYER_BULLETS] g;
          g = fold (\<lambda>i g. g\<lparr>enemyBullets :=
                  (enemyBullets g)[i := (enemyBullets g ! i)\<lparr>active := False\<rparr>]\<rparr>)
                [0..<MAX_ENEMY_BULLETS] g;
          g = fold (\<lambda>i g. g\<lparr>powerups := (powerups g)[i := (powerups g ! i)\<lparr>active := False\<rparr>]\<rparr>)
                [0..<MAX_POWERUPS] g;
          g = fold (\<lambda>i g. g\<lparr>explosions :=
                  (explosions g)[i := (explosions g ! i)\<lparr>active := False\<rparr>]\<rparr>)
                [0..<MAX_EXPLOSIONS] g;
          g = fold (\<lambda>i g. g\<lparr>particles := (particles g)[i := (particles g ! i)\<lparr>active := False\<rparr>]\<rparr>)
                [0..<MAX_PARTICLES] g
      in g)"

definition startGame :: "Game \<Rightarrow> Game" where
  "startGame g = (init g)\<lparr>state := PLAYING\<rparr>"

subsection \<open>Entity spawning\<close>

text \<open>The \<^verbatim>\<open>switch (type)\<close> of \<^verbatim>\<open>spawnEnemy\<close>: hit points, colour and size.\<close>

definition enemyStats :: "EntityType \<Rightarrow> int \<times> Color \<times> real" where
  "enemyStats t =
     (case t of ENEMY_FAST \<Rightarrow> (5, TFT_YELLOW, 16)
      | ENEMY_TANK \<Rightarrow> (30, TFT_PURPLE, 28)
      | _ \<Rightarrow> (10, TFT_RED, 20))"

definition spawnEnemy :: "EntityType \<Rightarrow> Vec2 \<Rightarrow> Vec2 \<Rightarrow> Game \<Rightarrow> Game" where
  "spawnEnemy t p v g =
     (case findFree (enemies g) MAX_ENEMIES of
        None \<Rightarrow> g
      | Some i \<Rightarrow>
          (let (hp, col, w) = enemyStats t; (now, g1) = millis g
           in g1\<lparr>enemies := (enemies g1)[i := Entity_init t p v w w hp col now]\<rparr>))"

definition spawnPlayerBullet :: "Vec2 \<Rightarrow> Vec2 \<Rightarrow> Game \<Rightarrow> Game" where
  "spawnPlayerBullet p v g =
     (case findFree (playerBullets g) MAX_PLAYER_BULLETS of
        None \<Rightarrow> g
      | Some i \<Rightarrow>
          (let (now, g1) = millis g
           in g1\<lparr>playerBullets :=
                  (playerBullets g1)[i := Entity_init BULLET_PLAYER p v 4 8 1 TFT_WHITE now]\<rparr>))"

definition spawnEnemyBullet :: "Vec2 \<Rightarrow> Vec2 \<Rightarrow> Game \<Rightarrow> Game" where
  "spawnEnemyBullet p v g =
     (case findFree (enemyBullets g) MAX_ENEMY_BULLETS of
        None \<Rightarrow> g
      | Some i \<Rightarrow>
          (let (now, g1) = millis g
           in g1\<lparr>enemyBullets :=
                  (enemyBullets g1)[i := Entity_init BULLET_ENEMY p v 4 8 1 TFT_ORANGE now]\<rparr>))"

definition spawnParticle :: "Vec2 \<Rightarrow> Vec2 \<Rightarrow> Game \<Rightarrow> Game" where
  "spawnParticle p v g =
     (case findFree (particles g) MAX_PARTICLES of
        None \<Rightarrow> g
      | Some i \<Rightarrow>
          (let (now, g1) = millis g
           in g1\<lparr>particles := (particles g1)[i := Entity_init PARTICLE p v 2 2 10 TFT_YELLOW now]\<rparr>))"

text \<open>The velocity of the \<open>j\<close>-th particle of an explosion.\<close>

definition particleVel :: "nat \<Rightarrow> Vec2" where
  "particleVel j = (let angle = (real j / 8) * 2 * pi in Vec2 (cos angle * 2) (sin angle * 2))"

text \<open>The first loop of \<^verbatim>\<open>spawnExplosion\<close>: the explosion entity itself.\<close>

definition spawnExplosionEntity :: "Vec2 \<Rightarrow> real \<Rightarrow> Game \<Rightarrow> Game" where
  "spawnExplosionEntity p sz g =
     (case findFree (explosions g) MAX_EXPLOSIONS of
        None \<Rightarrow> g
      | Some i \<Rightarrow>
          (let (now, g1) = millis g
           in g1\<lparr>explosions :=
                  (explosions g1)[i := Entity_init EXPLOSION p (Vec2 0 0) sz sz 6 TFT_ORANGE now]\<rparr>))"

definition spawnExplosion :: "Vec2 \<Rightarrow> real \<Rightarrow> Game \<Rightarrow> Game" where
  "spawnExplosion p sz g =
     fold (\<lambda>j g. spawnParticle p (particleVel j) g) [0..<8] (spawnExplosionEntity p sz g)"

definition spawnPowerup :: "Vec2 \<Rightarrow> EntityType \<Rightarrow> Game \<Rightarrow> Game" where
  "spawnPowerup p t g =
     (case findFree (powerups g) MAX_POWERUPS of
        None \<Rightarrow> g
      | Some i \<Rightarrow>
          (let col = (if t = POWERUP_WEAPON then TFT_GREEN else TFT_MAGENTA);
               (now, g1) = millis g
           in g1\<lparr>powerups := (powerups g1)[i := Entity_init t p (Vec2 0 1) 16 16 1 col now]\<rparr>))"

subsection \<open>Update functions\<close>

text \<open>
  Modelled from the spec: the Arduino core's macro \<^verbatim>\<open>constrain(amt, low, high)\<close>, which is
  not part of the repository; the specification has the position clamped to the bounds.
\<close>

definition constrain :: "real \<Rightarrow> real \<Rightarrow> real \<Rightarrow> real" where
  "constrain amt low high = (if amt < low then low else if amt > high then high else amt)"

definition updatePlayer :: "InputSystem \<Rightarrow> Game \<Rightarrow> Game" where
  "updatePlayer inp g =
     (let movement = joystickPos inp;
          p = player g;
          p = p\<lparr>vel := vscale movement 5\<rparr>;
          p = p\<lparr>pos := vadd (pos p) (vel p)\<rparr>;
          p = p\<lparr>pos := Vec2 (constrain (vec_x (pos p)) (width p / 2)
                               (real_of_int SCREEN_WIDTH - width p / 2))
                            (vec_y (pos p))\<rparr>;
          p = p\<lparr>pos := Vec2 (vec_x (pos p))
                            (constrain (vec_y (pos p)) (height p / 2)
                               (real_of_int SCREEN_HEIGHT - height p / 2 - 20))\<rparr>;
          g = g\<lparr>player := p\<rparr>
      in if firePressed inp then
           (let (now, g) = millis g
            in if now - lastPlayerShot g > 150 then
                 (let g = play SHOOT g;
                      g = (if playerWeaponLevel g = 1 then
                             spawnPlayerBullet (pos (player g)) (Vec2 0 (- 8)) g
                           else if playerWeaponLevel g = 2 then
                             spawnPlayerBullet (vadd (pos (player g)) (Vec2 8 0)) (Vec2 0 (- 8))
                               (spawnPlayerBullet (vadd (pos (player g)) (Vec2 (- 8) 0))
                                  (Vec2 0 (- 8)) g)
                           else
                             spawnPlayerBullet (vadd (pos (player g)) (Vec2 8 0)) (Vec2 1 (- 8))
                               (spawnPlayerBullet (vadd (pos (player g)) (Vec2 (- 8) 0))
                                  (Vec2 (- 1) (- 8))
                                  (spawnPlayerBullet (pos (player g)) (Vec2 0 (- 8)) g)));
                      (now2, g) = millis g
                  in g\<lparr>lastPlayerShot := now2\<rparr>)
               else g)
         else g)"

text \<open>
  The enemy-type selection of \<^verbatim>\<open>Game::update\<close>: from the draw \<open>enemyType\<close> to the type
  and the speed, with the branches in the order of the source.
\<close>

definition selectEnemyType :: "int \<Rightarrow> EntityType \<times> real" where
  "selectEnemyType enemyType =
     (if enemyType > 70 then (ENEMY_FAST, 3.0)
      else if enemyType > 90 then (ENEMY_TANK, 0.8)
      else (ENEMY_BASIC, 1.5))"

text \<open>The block \<^verbatim>\<open>// Spawn enemies\<close> of \<^verbatim>\<open>Game::update\<close>.\<close>

definition spawnEnemies :: "Game \<Rightarrow> Game" where
  "spawnEnemies g =
     (let (now, g) = millis g
      in if now - lastEnemySpawn g > 2000 then
           (let (enemyType, g) = random 0 100 g;
                (t, speed) = selectEnemyType enemyType;
                (xi, g) = random 30 (SCREEN_WIDTH - 30) g;
                g = spawnEnemy t (Vec2 (real_of_int xi) (- 20)) (Vec2 0 speed) g;
                (now2, g) = millis g
            in g\<lparr>lastEnemySpawn := now2\<rparr>)
         else g)"

text \<open>One iteration of the loop of \<^verbatim>\<open>updateEnemies\<close>.\<close>

definition updateEnemy :: "nat \<Rightarrow> Game \<Rightarrow> Game" where
  "updateEnemy i g =
     (if \<not> active (enemies g ! i) then g
      else
        (let e = enemies g ! i;
             dir = normalize (vsub (pos (player g)) (pos e));
             e = e\<lparr>pos := Vec2 (vec_x (pos e) + vec_x dir * vec_y (vel e) * 1.5) (vec_y (pos e))\<rparr>;
             e = e\<lparr>pos := Vec2 (vec_x (pos e)) (vec_y (pos e) + vec_y (vel e))\<rparr>;
             g = g\<lparr>enemies := (enemies g)[i := e]\<rparr>
         in if vec_y (pos e) > real_of_int (SCREEN_HEIGHT + 20) then
              g\<lparr>enemies := (enemies g)[i := deactivate e]\<rparr>
            else
              (let (r, g) = random 0 100 g
               in if r < 2 then
                    play ENEMY_SHOOT (spawnEnemyBullet (pos (enemies g ! i)) (Vec2 0 3) g)
                  else g)))"

definition updateEnemies :: "Game \<Rightarrow> Game" where
  "updateEnemies g = fold updateEnemy [0..<MAX_ENEMIES] g"

text \<open>What the loops of \<^verbatim>\<open>updateBullets\<close> do to one active bullet.\<close>

definition movePlayerBullet :: "Entity \<Rightarrow> Entity" where
  "movePlayerBullet b =
     (let b = b\<lparr>pos := vadd (pos b) (vel b)\<rparr>
      in if vec_y (pos b) < - 10 then deactivate b else b)"

definition moveEnemyBullet :: "Entity \<Rightarrow> Entity" where
  "moveEnemyBullet b =
     (let b = b\<lparr>pos := vadd (pos b) (vel b)\<rparr>
      in if vec_y (pos b) > real_of_int (SCREEN_HEIGHT + 10) then deactivate b else b)"

definition updatePlayerBullet :: "nat \<Rightarrow> Game \<Rightarrow> Game" where
  "updatePlayerBullet i g =
     (if \<not> active (playerBullets g ! i) then g
      else g\<lparr>playerBullets := (playerBullets g)[i := movePlayerBullet (playerBullets g ! i)]\<rparr>)"

definition updateEnemyBullet :: "nat \<Rightarrow> Game \<Rightarrow> Game" where
  "updateEnemyBullet i g =
     (if \<not> active (enemyBullets g ! i) then g
      else g\<lparr>enemyBullets := (enemyBullets g)[i := moveEnemyBullet (enemyBullets g ! i)]\<rparr>)"

definition updateBullets :: "Game \<Rightarrow> Game" where
  "updateBullets g =
     fold updateEnemyBullet [0..<MAX_ENEMY_BULLETS]
       (fold updatePlayerBullet [0..<MAX_PLAYER_BULLETS] g)"

definition movePowerup :: "Entity \<Rightarrow> Entity" where
  "movePowerup b =
     (let b = b\<lparr>pos := vadd (pos b) (vel b)\<rparr>
      in if vec_y (pos b) > real_of_int (SCREEN_HEIGHT + 20) then deactivate b else b)"

definition updatePowerup :: "nat \<Rightarrow> Game \<Rightarrow> Game" where
  "updatePowerup i g =
     (if \<not> active (powerups g ! i) then g
      else g\<lparr>powerups := (powerups g)[i := movePowerup (powerups g ! i)]\<rparr>)"

definition updatePowerups :: "Game \<Rightarrow> Game" where
  "updatePowerups g = fold updatePowerup [0..<MAX_POWERUPS] g"

definition updateExplosion :: "nat \<Rightarrow> Game \<Rightarrow> Game" where
  "updateExplosion i g =
     (if \<not> active (explosions g ! i) then g
      else
        (let (now, g) = millis g;
             e = explosions g ! i
         in if now - lastAnimTime e > 50 then
              (let e = e\<lparr>animFrame := animFrame e + 1\<rparr>;
                   (now2, g) = millis g;
                   e = e\<lparr>lastAnimTime := now2\<rparr>;
                   e = (if animFrame e \<ge> health e then deactivate e else e)
               in g\<lparr>explosions := (explosions g)[i := e]\<rparr>)
            else g))"

definition updateExplosions :: "Game \<Rightarrow> Game" where
  "updateExplosions g = fold updateExplosion [0..<MAX_EXPLOSIONS] g"

definition moveParticle :: "Entity \<Rightarrow> Entity" where
  "moveParticle b =
     (let b = b\<lparr>pos := vadd (pos b) (vel b)\<rparr>;
          b = b\<lparr>health := health b - 1\<rparr>
      in if health b \<le> 0 then deactivate b else b)"

definition updateParticle :: "nat \<Rightarrow> Game \<Rightarrow> Game" where
  "updateParticle i g =
     (if \<not> active (particles g ! i) then g
      else g\<lparr>particles := (particles g)[i := moveParticle (particles g ! i)]\<rparr>)"

definition updateParticles :: "Game \<Rightarrow> Game" where
  "updateParticles g = fold updateParticle [0..<MAX_PARTICLES] g"

subsection \<open>Collisions\<close>

text \<open>
  The body of \<^verbatim>\<open>if (playerBullets[i].getRect().intersects(enemies[j].getRect()))\<close>, up to
  its \<^verbatim>\<open>break\<close>.
\<close>

definition hitEnemy :: "nat \<Rightarrow> nat \<Rightarrow> Game \<Rightarrow> Game" where
  "hitEnemy i j g =
     (let g = g\<lparr>playerBullets := (playerBullets g)[i := deactivate (playerBullets g ! i)]\<rparr>;
          g = g\<lparr>enemies := (enemies g)[j := (enemies g ! j)\<lparr>health := health (enemies g ! j) - 10\<rparr>]\<rparr>
      in if health (enemies g ! j) \<le> 0 then
           (let g = g\<lparr>score := score g + 100\<rparr>;
                g = spawnExplosion (pos (enemies g ! j)) (width (enemies g ! j)) g;
                g = play SND_EXPLOSION g;
                (r, g) = random 0 100 g;
                g = (if r < 20 then
                       (let (r2, g) = random 0 2 g;
                            pType = (if r2 = 0 then POWERUP_WEAPON else POWERUP_HEALTH)
                        in spawnPowerup (pos (enemies g ! j)) pType g)
                     else g)
            in g\<lparr>enemies := (enemies g)[j := deactivate (enemies g ! j)]\<rparr>)
         else play HIT g)"

text \<open>
  One iteration of the outer loop of the phase player bullets against enemies. The inner loop
  changes nothing before the first active enemy that the bullet intersects and ends there.
\<close>

definition bulletVsEnemies :: "nat \<Rightarrow> Game \<Rightarrow> Game" where
  "bulletVsEnemies i g =
     (if \<not> active (playerBullets g ! i) then g
      else
        (case find (\<lambda>j. active (enemies g ! j) \<and>
                      intersects (getRect (playerBullets g ! i)) (getRect (enemies g ! j)))
                [0..<MAX_ENEMIES] of
           None \<Rightarrow> g
         | Some j \<Rightarrow> hitEnemy i j g))"

definition enemyBulletVsPlayer :: "nat \<Rightarrow> Game \<Rightarrow> Game" where
  "enemyBulletVsPlayer i g =
     (if \<not> active (enemyBullets g ! i) then g
      else if intersects (getRect (enemyBullets g ! i)) (getRect (player g)) then
        (let g = g\<lparr>enemyBullets := (enemyBullets g)[i := deactivate (enemyBullets g ! i)]\<rparr>;
             g = g\<lparr>lives := lives g - 1\<rparr>;
             g = spawnExplosion (pos (player g)) (width (player g)) g
         in play HIT g)
      else g)"

definition enemyVsPlayer :: "nat \<Rightarrow> Game \<Rightarrow> Game" where
  "enemyVsPlayer i g =
     (if \<not> active (enemies g ! i) then g
      else if intersects (getRect (enemies g ! i)) (getRect (player g)) then
        (let g = g\<lparr>lives := lives g - 1\<rparr>;
             g = spawnExplosion (pos (enemies g ! i)) (width (enemies g ! i)) g;
             g = spawnExplosion (pos (player g)) (width (player g)) g;
             g = play SND_EXPLOSION g
         in g\<lparr>enemies := (enemies g)[i := deactivate (enemies g ! i)]\<rparr>)
      else g)"

definition powerupVsPlayer :: "nat \<Rightarrow> Game \<Rightarrow> Game" where
  "powerupVsPlayer i g =
     (if \<not> active (powerups g ! i) then g
      else if intersects (getRect (powerups g ! i)) (getRect (player g)) then
        (let g = (if etype (powerups g ! i) = POWERUP_WEAPON then
                    g\<lparr>playerWeaponLevel := min (playerWeaponLevel g + 1) 3\<rparr>
                  else if etype (powerups g ! i) = POWERUP_HEALTH then
                    g\<lparr>lives := min (lives g + 1) 5\<rparr>
                  else g);
             g = play POWERUP g
         in g\<lparr>powerups := (powerups g)[i := deactivate (powerups g ! i)]\<rparr>)
      else g)"

definition checkCollisions :: "Game \<Rightarrow> Game" where
  "checkCollisions g =
     fold powerupVsPlayer [0..<MAX_POWERUPS]
       (fold enemyVsPlayer [0..<MAX_ENEMIES]
          (fold enemyBulletVsPlayer [0..<MAX_ENEMY_BULLETS]
             (fold bulletVsEnemies [0..<MAX_PLAYER_BULLETS] g)))"

subsection \<open>The frame update\<close>

definition update :: "InputSystem \<Rightarrow> Game \<Rightarrow> Game" where
  "update inp g =
     (if state g = TITLE then (if isTouching inp then startGame g else g)
      else if state g = GAME_OVER then (if isTouching inp then startGame g else g)
      else
        (let g = g\<lparr>scrollY := scrollY g + 1\<rparr>;
             g = (if scrollY g > 32 then g\<lparr>scrollY := 0\<rparr> else g);
             g = updatePlayer inp g;
             g = spawnEnemies g;
             g = updateEnemies g;
             g = updateBullets g;
             g = updatePowerups g;
             g = updateExplosions g;
             g = updateParticles g;
             g = checkCollisions g
         in if lives g \<le> 0 then g\<lparr>state := GAME_OVER\<rparr> else g))"

text \<open>
  The states the program can be in between two frames: \<^verbatim>\<open>setup()\<close> calls \<^verbatim>\<open>game.init()\<close>
  on the global object, and every frame of \<^verbatim>\<open>loop()\<close> calls \<^verbatim>\<open>game.update()\<close> with the
  input of that frame.
\<close>

inductive reachable :: "Game \<Rightarrow> bool" where
  boot: "wf g0 \<Longrightarrow> reachable (init g0)"
| frame: "reachable g \<Longrightarrow> reachable (update inp g)"

section \<open>The program at power-up\<close>

text \<open>
  The global \<^verbatim>\<open>Game game;\<close> has static storage and is zero-initialised before
  \<^verbatim>\<open>setup()\<close> runs: every flag false, every number zero, every enum its first
  enumerator. \<open>zeroGame clk gen\<close> is that object on a board whose clock returns the values
  \<open>clk\<close> and whose generator returns the raw values \<open>gen\<close>.
\<close>

definition zeroEntity :: Entity where
  "zeroEntity =
     \<lparr>active = False, etype = PLAYER, pos = Vec2 0 0, vel = Vec2 0 0, width = 0, height = 0,
      health = 0, color = TFT_BLACK, animFrame = 0, lastAnimTime = 0\<rparr>"

definition zeroGame :: "(nat \<Rightarrow> 32 word) \<Rightarrow> (nat \<Rightarrow> nat) \<Rightarrow> Game" where
  "zeroGame clk gen =
     \<lparr>player = zeroEntity, enemies = replicate MAX_ENEMIES zeroEntity,
      playerBullets = replicate MAX_PLAYER_BULLETS zeroEntity,
      enemyBullets = replicate MAX_ENEMY_BULLETS zeroEntity,
      powerups = replicate MAX_POWERUPS zeroEntity,
      explosions = replicate MAX_EXPLOSIONS zeroEntity,
      particles = replicate MAX_PARTICLES zeroEntity,
      score = 0, lives = 0, wave = 0, scrollY = 0, lastEnemySpawn = 0, lastPlayerShot = 0,
      playerWeaponLevel = 0, state = TITLE,
      sound = \<lparr>currentSound = (0, 0), soundStartTime = 0, isPlaying = False\<rparr>,
      clock = clk, clockPos = 0, rng = gen, rngPos = 0\<rparr>"

section \<open>Observations on pools\<close>

text \<open>The number of active slots of a pool, and the sizes of the six arrays of a game.\<close>

definition activeCount :: "Entity list \<Rightarrow> nat" where
  "activeCount pool = length (filter active pool)"

definition poolSizes :: "Game \<Rightarrow> nat list" where
  "poolSizes g =
     [length (enemies g), length (playerBullets g), length (enemyBullets g),
      length (powerups g), length (explosions g), length (particles g)]"

section \<open>Example states\<close>

text \<open>
  A game that has ended with a full enemy pool and a full particle pool, a score of 700 and
  weapon level 3.
\<close>

definition gameOverExample :: Game where
  "gameOverExample =
     (zeroGame (\<lambda>_. 0) (\<lambda>_. 0))
       \<lparr>state := GAME_OVER, score := 700, lives := - 1, playerWeaponLevel := 3,
        enemies := replicate MAX_ENEMIES (zeroEntity\<lparr>active := True\<rparr>),
        particles := replicate MAX_PARTICLES (zeroEntity\<lparr>active := True\<rparr>)\<rparr>"

text \<open>
  A game whose only active entity is the player bullet in slot 3, at vertical position 5 and
  with velocity \<open>(0, -8)\<close>.
\<close>

definition bulletExample :: Game where
  "bulletExample =
     (zeroGame (\<lambda>_. 0) (\<lambda>_. 0))
       \<lparr>playerBullets := (replicate MAX_PLAYER_BULLETS zeroEntity)
          [3 := Entity_init BULLET_PLAYER (Vec2 100 5) (Vec2 0 (- 8)) 4 8 1 TFT_WHITE 0]\<rparr>"

section \<open>Observations on spawning\<close>


text \<open>A particle as \<^verbatim>\<open>spawnParticle\<close> creates it at position \<open>p\<close>.\<close>

definition newParticle :: "Vec2 \<Rightarrow> Entity \<Rightarrow> bool" where
  "newParticle p e \<longleftrightarrow>
     active e \<and> etype e = PARTICLE \<and> pos e = p \<and> width e = 2 \<and> height e = 2 \<and>
     health e = 10 \<and> animFrame e = 0"

text \<open>
  \<open>burst p old new\<close>: the particle pool \<open>new\<close> differs from \<open>old\<close> only in slots that were
  inactive and now hold a new particle at \<open>p\<close>.
\<close>

definition burst :: "Vec2 \<Rightarrow> Entity list \<Rightarrow> Entity list \<Rightarrow> bool" where
  "burst p old new \<longleftrightarrow>
     length new = length old \<and>
     (\<forall>m<length old. new ! m = old ! m \<or> (\<not> active (old ! m) \<and> newParticle p (new ! m)))"



section \<open>Observations on collisions\<close>

text \<open>
  The test of the inner loop of the first collision phase: enemy \<open>j\<close> is active and the
  rectangle of player bullet \<open>i\<close> intersects its rectangle.
\<close>

definition bulletHits :: "Game \<Rightarrow> nat \<Rightarrow> nat \<Rightarrow> bool" where
  "bulletHits g i j \<longleftrightarrow>
     active (enemies g ! j) \<and>
     intersects (getRect (playerBullets g ! i)) (getRect (enemies g ! j))"

text \<open>
  A game in which the player bullet of slot 2 overlaps two active enemies at once: a basic
  enemy with 10 hit points in slot 3 and a tank with 30 hit points in slot 7.
\<close>

definition collisionExample :: Game where
  "collisionExample =
     (zeroGame (\<lambda>_. 0) (\<lambda>_. 50))
       \<lparr>state := PLAYING, lives := 3, playerWeaponLevel := 1,
        playerBullets := (replicate MAX_PLAYER_BULLETS zeroEntity)
          [2 := Entity_init BULLET_PLAYER (Vec2 100 100) (Vec2 0 (- 8)) 4 8 1 TFT_WHITE 0],
        enemies := (replicate MAX_ENEMIES zeroEntity)
          [3 := Entity_init ENEMY_BASIC (Vec2 100 100) (Vec2 0 1.5) 20 20 10 TFT_RED 0,
           7 := Entity_init ENEMY_TANK (Vec2 102 98) (Vec2 0 0.8) 28 28 30 TFT_PURPLE 0]\<rparr>"

text \<open>
  A run of the program. The player starts the game three seconds after power-up by pushing
  the joystick straight up and keeps it there; every read of the clock comes 33 ms after the
  previous one. \<open>ambush k\<close> is the state after \<open>k\<close> calls of \<^verbatim>\<open>game.update()\<close>. The
  first call starts the game. In the second call the generator places a basic enemy in column
  240, right above the player; it lets that enemy fire in the calls 38, 39 and 40 and at no
  other time. Every coordinate that occurs in the run is a multiple of 0.5, so the floats of
  the program take exactly the values computed here.
\<close>

definition steadyClock :: "nat \<Rightarrow> 32 word" where
  "steadyClock n = of_nat (3000 + 33 * n)"

definition luckyDraws :: "nat \<Rightarrow> nat" where
  "luckyDraws n = (if n = 1 then 210 else if 38 \<le> n \<and> n \<le> 40 then 0 else 50)"

definition upInput :: InputSystem where
  "upInput = \<lparr>joystickPos = Vec2 0 (- 1), firePressed = False, isTouching = True\<rparr>"

definition ambush :: "nat \<Rightarrow> Game" where
  "ambush k = (update upInput ^^ k) (init (zeroGame steadyClock luckyDraws))"

text \<open>
  The same game with a score of 2147483600: a multiple of 100, as every score of the game
  is, and forty-seven points below the largest value of the 32-bit counter.
\<close>

definition highScoreExample :: Game where
  "highScoreExample = collisionExample\<lparr>score := 2147483600\<rparr>"


section \<open>Rectangle intersection\<close>

text \<open>
  C10. The intersection test is commutative: \<open>a.intersects(b)\<close> and \<open>b.intersects(a)\<close>
  return the same boolean for every pair of rectangles. The statement holds for every
  coordinate type with an addition and a comparison, whatever the addition computes.
\<close>

theorem intersects_commute: "intersects a b = intersects b a"
  by (auto simp: intersects_def)

text \<open>
  C4, as the specification states it, fails: the boxes \<open>[0,10] \<times> [0,10]\<close> and
  \<open>[10,20] \<times> [0,10]\<close> touch along the edge \<open>x = 10\<close>, so their closed intervals overlap on
  both axes, and \<^verbatim>\<open>Rect::intersects\<close> returns false, because its four comparisons are
  strict.
\<close>

theorem intersects_touching_counterexample:
  "spec_overlap_touching (Rect 0 0 10 10) (Rect 10 0 10 10) \<and>
   \<not> intersects (Rect (0::real) 0 10 10) (Rect 10 0 10 10)"
  by (simp add: spec_overlap_touching_def intersects_def)

text \<open>
  C4, amended. For every pair of boxes, degenerate ones included, the test returns true iff
  the closed x-intervals \<open>[x, x + w]\<close> and the closed y-intervals \<open>[y, y + h]\<close> of the two
  boxes both overlap and there is no contact at an edge: boxes whose intervals overlap but
  where, on some axis, the maximum coordinate of one equals the minimum coordinate of the
  other are not counted as overlapping.
\<close>

theorem intersects_iff_overlap_without_contact:
  "intersects a r \<longleftrightarrow> spec_overlap_touching a r \<and> \<not> edgeContact a r"
  by (auto simp: intersects_def spec_overlap_touching_def edgeContact_def)

theorem intersects_iff_overlap_without_contact_witness:
  "intersects (Rect (0::real) 0 10 10) (Rect 9 9 10 10) \<and>
   spec_overlap_touching (Rect 0 0 10 10) (Rect 9 9 10 10) \<and>
   \<not> edgeContact (Rect 0 0 10 10) (Rect 9 9 10 10) \<and>
   \<not> intersects (Rect (0::real) 0 10 10) (Rect 10 0 10 10) \<and>
   spec_overlap_touching (Rect 0 0 10 10) (Rect 10 0 10 10) \<and>
   edgeContact (Rect 0 0 10 10) (Rect 10 0 10 10) \<and>
   intersects (Rect (5::real) 5 0 0) (Rect 0 0 10 10) \<and>
   spec_overlap_touching (Rect 5 5 0 0) (Rect 0 0 10 10) \<and>
   \<not> edgeContact (Rect 5 5 0 0) (Rect 0 0 10 10)"
proof -
  have o: "spec_overlap_touching (Rect 0 0 10 10) (Rect 9 9 10 10)"
    "spec_overlap_touching (Rect 0 0 10 10) (Rect 10 0 10 10)"
    "spec_overlap_touching (Rect 5 5 0 0) (Rect 0 0 10 10)"
    by (simp_all add: spec_overlap_touching_def)
  have c: "\<not> edgeContact (Rect 0 0 10 10) (Rect 9 9 10 10)"
    "edgeContact (Rect 0 0 10 10) (Rect 10 0 10 10)"
    "\<not> edgeContact (Rect 5 5 0 0) (Rect 0 0 10 10)"
    by (simp_all add: edgeContact_def)
  from o c
    intersects_iff_overlap_without_contact[of "Rect 0 0 10 10" "Rect 9 9 10 10"]
    intersects_iff_overlap_without_contact[of "Rect 0 0 10 10" "Rect 10 0 10 10"]
    intersects_iff_overlap_without_contact[of "Rect 5 5 0 0" "Rect 0 0 10 10"]
  show ?thesis by blast
qed

section \<open>Clock, generator and pool scans\<close>

lemma random_range:
  assumes "lo < hi"
  shows "lo \<le> fst (random lo hi g) \<and> fst (random lo hi g) < hi"
proof -
  from assms have p: "0 < hi - lo" by simp
  have "0 \<le> int (rng g (rngPos g)) mod (hi - lo)"
       "int (rng g (rngPos g)) mod (hi - lo) < hi - lo"
    using p by (rule pos_mod_sign, rule pos_mod_bound)
  with assms show ?thesis by (simp add: random_def)
qed

lemma findFree_None: "findFree pool n = None \<longleftrightarrow> (\<forall>i<n. active (pool ! i))"
  by (auto simp: findFree_def find_None_iff)

lemma findFree_Some:
  "findFree pool n = Some i \<longleftrightarrow> i < n \<and> \<not> active (pool ! i) \<and> (\<forall>j<i. active (pool ! j))"
  by (auto simp: findFree_def find_Some_iff)

lemma wf_zeroGame: "wf (zeroGame clk gen)"
  by (simp add: wf_def zeroGame_def)

section \<open>Enemy-type selection\<close>

lemma spawnEnemy_slot:
  "enemies (spawnEnemy t p v g) ! i = enemies g ! i \<or>
   etype (enemies (spawnEnemy t p v g) ! i) = t"
proof (cases "findFree (enemies g) MAX_ENEMIES")
  case None
  then show ?thesis by (simp add: spawnEnemy_def)
next
  case (Some j)
  show ?thesis
    by (cases "j < length (enemies g)"; cases "i = j")
       (simp_all add: spawnEnemy_def Some millis_def Entity_init_def list_update_beyond
          split: prod.split)
qed

lemma spawnEnemies_slot:
  "enemies (spawnEnemies g) ! i = enemies g ! i \<or>
   etype (enemies (spawnEnemies g) ! i) = fst (selectEnemyType (fst (random 0 100 (snd (millis g)))))"
proof -
  let ?g1 = "snd (millis g)"
  let ?d = "fst (random 0 100 ?g1)"
  let ?g2 = "snd (random 0 100 ?g1)"
  let ?t = "fst (selectEnemyType ?d)"
  let ?s = "snd (selectEnemyType ?d)"
  let ?x = "fst (random 30 (SCREEN_WIDTH - 30) ?g2)"
  let ?g3 = "snd (random 30 (SCREEN_WIDTH - 30) ?g2)"
  let ?g4 = "spawnEnemy ?t (Vec2 (real_of_int ?x) (- 20)) (Vec2 0 ?s) ?g3"
  have e: "enemies (spawnEnemies g) = enemies g \<or> enemies (spawnEnemies g) = enemies ?g4"
    by (simp add: spawnEnemies_def Let_def millis_def split: prod.split)
  have g3: "enemies ?g3 = enemies g"
    by (simp add: millis_def random_def)
  from spawnEnemy_slot[of ?t "Vec2 (real_of_int ?x) (- 20)" "Vec2 0 ?s" ?g3 i] e g3
  show ?thesis by auto
qed

text \<open>
  C1. Whatever the draw \<open>d\<close>, the selection yields the fast type when \<open>d > 70\<close> and the
  basic type otherwise, so never the tank type: its branch \<open>d > 90\<close> is tested only when
  \<open>d > 70\<close> has failed. Every enemy slot that the spawn block of a frame changes holds an
  enemy of the type selected from that frame's draw, which lies in \<open>[0,100)\<close>.
\<close>

theorem enemy_type_selection_never_tank:
  "fst (selectEnemyType d) = (if 70 < d then ENEMY_FAST else ENEMY_BASIC) \<and>
   fst (selectEnemyType d) \<noteq> ENEMY_TANK \<and>
   0 \<le> fst (random 0 100 (snd (millis g))) \<and> fst (random 0 100 (snd (millis g))) < 100 \<and>
   (enemies (spawnEnemies g) ! i = enemies g ! i \<or>
    etype (enemies (spawnEnemies g) ! i) =
      (if 70 < fst (random 0 100 (snd (millis g))) then ENEMY_FAST else ENEMY_BASIC))"
proof -
  have s: "fst (selectEnemyType e) = (if 70 < e then ENEMY_FAST else ENEMY_BASIC)" for e
    by (simp add: selectEnemyType_def)
  have r: "0 \<le> fst (random 0 100 (snd (millis g))) \<and> fst (random 0 100 (snd (millis g))) < 100"
    by (rule random_range) simp
  from s[of d] r spawnEnemies_slot[of g i] show ?thesis
    by (simp add: s)
qed

theorem enemy_type_selection_never_tank_witness:
  "fst (selectEnemyType 95) = ENEMY_FAST \<and>
   fst (random 0 100 (snd (millis (zeroGame (\<lambda>_. 5000) (\<lambda>_. 95))))) = 95 \<and>
   enemies (spawnEnemies (zeroGame (\<lambda>_. 5000) (\<lambda>_. 95))) ! 0 \<noteq>
     enemies (zeroGame (\<lambda>_. 5000) (\<lambda>_. 95)) ! 0 \<and>
   etype (enemies (spawnEnemies (zeroGame (\<lambda>_. 5000) (\<lambda>_. 95))) ! 0) = ENEMY_FAST"
proof -
  let ?g = "zeroGame (\<lambda>_. 5000) (\<lambda>_. 95)"
  have d: "fst (random 0 100 (snd (millis ?g))) = 95"
    by (simp add: random_def millis_def zeroGame_def)
  have ff: "findFree (enemies ?g) MAX_ENEMIES = Some 0"
    by (simp add: findFree_Some zeroGame_def zeroEntity_def)
  have n: "enemies (spawnEnemies ?g) ! 0 \<noteq> enemies ?g ! 0"
    using ff
    by (simp add: spawnEnemies_def millis_def random_def selectEnemyType_def spawnEnemy_def
          enemyStats_def Entity_init_def zeroGame_def zeroEntity_def Let_def)
  from enemy_type_selection_never_tank[of 95 ?g 0] d n show ?thesis by simp
qed

section \<open>What each operation leaves unchanged\<close>

lemma fold_pres: "(\<And>i s. h (f i s) = h s) \<Longrightarrow> h (fold f xs s) = h s"
  by (induction xs arbitrary: s) simp_all

lemma wf_poolSizes: "wf g \<longleftrightarrow> poolSizes g = [20, 30, 40, 5, 10, 50]"
  by (auto simp: wf_def poolSizes_def)

lemma millis_frame [simp]:
  "player (snd (millis g)) = player g"
  "enemies (snd (millis g)) = enemies g"
  "playerBullets (snd (millis g)) = playerBullets g"
  "enemyBullets (snd (millis g)) = enemyBullets g"
  "powerups (snd (millis g)) = powerups g"
  "explosions (snd (millis g)) = explosions g"
  "particles (snd (millis g)) = particles g"
  "score (snd (millis g)) = score g"
  "lives (snd (millis g)) = lives g"
  "wave (snd (millis g)) = wave g"
  "scrollY (snd (millis g)) = scrollY g"
  "lastEnemySpawn (snd (millis g)) = lastEnemySpawn g"
  "lastPlayerShot (snd (millis g)) = lastPlayerShot g"
  "playerWeaponLevel (snd (millis g)) = playerWeaponLevel g"
  "state (snd (millis g)) = state g"
  "sound (snd (millis g)) = sound g"
  "clock (snd (millis g)) = clock g"
  "rng (snd (millis g)) = rng g"
  "rngPos (snd (millis g)) = rngPos g"
  by (simp_all add: millis_def split: option.split prod.split)

lemma random_frame [simp]:
  "player (snd (random lo hi g)) = player g"
  "enemies (snd (random lo hi g)) = enemies g"
  "playerBullets (snd (random lo hi g)) = playerBullets g"
  "enemyBullets (snd (random lo hi g)) = enemyBullets g"
  "powerups (snd (random lo hi g)) = powerups g"
  "explosions (snd (random lo hi g)) = explosions g"
  "particles (snd (random lo hi g)) = particles g"
  "score (snd (random lo hi g)) = score g"
  "lives (snd (random lo hi g)) = lives g"
  "wave (snd (random lo hi g)) = wave g"
  "scrollY (snd (random lo hi g)) = scrollY g"
  "lastEnemySpawn (snd (random lo hi g)) = lastEnemySpawn g"
  "lastPlayerShot (snd (random lo hi g)) = lastPlayerShot g"
  "playerWeaponLevel (snd (random lo hi g)) = playerWeaponLevel g"
  "state (snd (random lo hi g)) = state g"
  "sound (snd (random lo hi g)) = sound g"
  "clock (snd (random lo hi g)) = clock g"
  "clockPos (snd (random lo hi g)) = clockPos g"
  "rng (snd (random lo hi g)) = rng g"
  by (simp_all add: random_def split: option.split prod.split)

lemma play_frame [simp]:
  "player (play effect g) = player g"
  "enemies (play effect g) = enemies g"
  "playerBullets (play effect g) = playerBullets g"
  "enemyBullets (play effect g) = enemyBullets g"
  "powerups (play effect g) = powerups g"
  "explosions (play effect g) = explosions g"
  "particles (play effect g) = particles g"
  "score (play effect g) = score g"
  "lives (play effect g) = lives g"
  "wave (play effect g) = wave g"
  "scrollY (play effect g) = scrollY g"
  "lastEnemySpawn (play effect g) = lastEnemySpawn g"
  "lastPlayerShot (play effect g) = lastPlayerShot g"
  "playerWeaponLevel (play effect g) = playerWeaponLevel g"
  "state (play effect g) = state g"
  "clock (play effect g) = clock g"
  "rng (play effect g) = rng g"
  "rngPos (play effect g) = rngPos g"
  by (simp_all add: play_def millis_def split: option.split prod.split)

lemma spawnEnemy_frame [simp]:
  "player (spawnEnemy t p v g) = player g"
  "length (enemies (spawnEnemy t p v g)) = length (enemies g)"
  "playerBullets (spawnEnemy t p v g) = playerBullets g"
  "enemyBullets (spawnEnemy t p v g) = enemyBullets g"
  "powerups (spawnEnemy t p v g) = powerups g"
  "explosions (spawnEnemy t p v g) = explosions g"
  "particles (spawnEnemy t p v g) = particles g"
  "score (spawnEnemy t p v g) = score g"
  "lives (spawnEnemy t p v g) = lives g"
  "wave (spawnEnemy t p v g) = wave g"
  "scrollY (spawnEnemy t p v g) = scrollY g"
  "lastEnemySpawn (spawnEnemy t p v g) = lastEnemySpawn g"
  "lastPlayerShot (spawnEnemy t p v g) = lastPlayerShot g"
  "playerWeaponLevel (spawnEnemy t p v g) = playerWeaponLevel g"
  "state (spawnEnemy t p v g) = state g"
  "sound (spawnEnemy t p v g) = sound g"
  "clock (spawnEnemy t p v g) = clock g"
  "rng (spawnEnemy t p v g) = rng g"
  "rngPos (spawnEnemy t p v g) = rngPos g"
  by (simp_all add: spawnEnemy_def millis_def split: option.split prod.split)

lemma spawnPlayerBullet_frame [simp]:
  "player (spawnPlayerBullet p v g) = player g"
  "enemies (spawnPlayerBullet p v g) = enemies g"
  "length (playerBullets (spawnPlayerBullet p v g)) = length (playerBullets g)"
  "enemyBullets (spawnPlayerBullet p v g) = enemyBullets g"
  "powerups (spawnPlayerBullet p v g) = powerups g"
  "explosions (spawnPlayerBullet p v g) = explosions g"
  "particles (spawnPlayerBullet p v g) = particles g"
  "score (spawnPlayerBullet p v g) = score g"
  "lives (spawnPlayerBullet p v g) = lives g"
  "wave (spawnPlayerBullet p v g) = wave g"
  "scrollY (spawnPlayerBullet p v g) = scrollY g"
  "lastEnemySpawn (spawnPlayerBullet p v g) = lastEnemySpawn g"
  "lastPlayerShot (spawnPlayerBullet p v g) = lastPlayerShot g"
  "playerWeaponLevel (spawnPlayerBullet p v g) = playerWeaponLevel g"
  "state (spawnPlayerBullet p v g) = state g"
  "sound (spawnPlayerBullet p v g) = sound g"
  "clock (spawnPlayerBullet p v g) = clock g"
  "rng (spawnPlayerBullet p v g) = rng g"
  "rngPos (spawnPlayerBullet p v g) = rngPos g"
  by (simp_all add: spawnPlayerBullet_def millis_def split: option.split prod.split)

lemma spawnEnemyBullet_frame [simp]:
  "player (spawnEnemyBullet p v g) = player g"
  "enemies (spawnEnemyBullet p v g) = enemies g"
  "playerBullets (spawnEnemyBullet p v g) = playerBullets g"
  "length (enemyBullets (spawnEnemyBullet p v g)) = length (enemyBullets g)"
  "powerups (spawnEnemyBullet p v g) = powerups g"
  "explosions (spawnEnemyBullet p v g) = explosions g"
  "particles (spawnEnemyBullet p v g) = particles g"
  "score (spawnEnemyBullet p v g) = score g"
  "lives (spawnEnemyBullet p v g) = lives g"
  "wave (spawnEnemyBullet p v g) = wave g"
  "scrollY (spawnEnemyBullet p v g) = scrollY g"
  "lastEnemySpawn (spawnEnemyBullet p v g) = lastEnemySpawn g"
  "lastPlayerShot (spawnEnemyBullet p v g) = lastPlayerShot g"
  "playerWeaponLevel (spawnEnemyBullet p v g) = playerWeaponLevel g"
  "state (spawnEnemyBullet p v g) = state g"
  "sound (spawnEnemyBullet p v g) = sound g"
  "clock (spawnEnemyBullet p v g) = clock g"
  "rng (spawnEnemyBullet p v g) = rng g"
  "rngPos (spawnEnemyBullet p v g) = rngPos g"
  by (simp_all add: spawnEnemyBullet_def millis_def split: option.split prod.split)

lemma spawnParticle_frame [simp]:
  "player (spawnParticle p v g) = player g"
  "enemies (spawnParticle p v g) = enemies g"
  "playerBullets (spawnParticle p v g) = playerBullets g"
  "enemyBullets (spawnParticle p v g) = enemyBullets g"
  "powerups (spawnParticle p v g) = powerups g"
  "explosions (spawnParticle p v g) = explosions g"
  "length (particles (spawnParticle p v g)) = length (particles g)"
  "score (spawnParticle p v g) = score g"
  "lives (spawnParticle p v g) = lives g"
  "wave (spawnParticle p v g) = wave g"
  "scrollY (spawnParticle p v g) = scrollY g"
  "lastEnemySpawn (spawnParticle p v g) = lastEnemySpawn g"
  "lastPlayerShot (spawnParticle p v g) = lastPlayerShot g"
  "playerWeaponLevel (spawnParticle p v g) = playerWeaponLevel g"
  "state (spawnParticle p v g) = state g"
  "sound (spawnParticle p v g) = sound g"
  "clock (spawnParticle p v g) = clock g"
  "rng (spawnParticle p v g) = rng g"
  "rngPos (spawnParticle p v g) = rngPos g"
  by (simp_all add: spawnParticle_def millis_def split: option.split prod.split)

lemma spawnExplosionEntity_frame [simp]:
  "player (spawnExplosionEntity p sz g) = player g"
  "enemies (spawnExplosionEntity p sz g) = enemies g"
  "playerBullets (spawnExplosionEntity p sz g) = playerBullets g"
  "enemyBullets (spawnExplosionEntity p sz g) = enemyBullets g"
  "powerups (spawnExplosionEntity p sz g) = powerups g"
  "length (explosions (spawnExplosionEntity p sz g)) = length (explosions g)"
  "particles (spawnExplosionEntity p sz g) = particles g"
  "score (spawnExplosionEntity p sz g) = score g"
  "lives (spawnExplosionEntity p sz g) = lives g"
  "wave (spawnExplosionEntity p sz g) = wave g"
  "scrollY (spawnExplosionEntity p sz g) = scrollY g"
  "lastEnemySpawn (spawnExplosionEntity p sz g) = lastEnemySpawn g"
  "lastPlayerShot (spawnExplosionEntity p sz g) = lastPlayerShot g"
  "playerWeaponLevel (spawnExplosionEntity p sz g) = playerWeaponLevel g"
  "state (spawnExplosionEntity p sz g) = state g"
  "sound (spawnExplosionEntity p sz g) = sound g"
  "clock (spawnExplosionEntity p sz g) = clock g"
  "rng (spawnExplosionEntity p sz g) = rng g"
  "rngPos (spawnExplosionEntity p sz g) = rngPos g"
  by (simp_all add: spawnExplosionEntity_def millis_def split: option.split prod.split)

lemma spawnPowerup_frame [simp]:
  "player (spawnPowerup p t g) = player g"
  "enemies (spawnPowerup p t g) = enemies g"
  "playerBullets (spawnPowerup p t g) = playerBullets g"
  "enemyBullets (spawnPowerup p t g) = enemyBullets g"
  "length (powerups (spawnPowerup p t g)) = length (powerups g)"
  "explosions (spawnPowerup p t g) = explosions g"
  "particles (spawnPowerup p t g) = particles g"
  "score (spawnPowerup p t g) = score g"
  "lives (spawnPowerup p t g) = lives g"
  "wave (spawnPowerup p t g) = wave g"
  "scrollY (spawnPowerup p t g) = scrollY g"
  "lastEnemySpawn (spawnPowerup p t g) = lastEnemySpawn g"
  "lastPlayerShot (spawnPowerup p t g) = lastPlayerShot g"
  "playerWeaponLevel (spawnPowerup p t g) = playerWeaponLevel g"
  "state (spawnPowerup p t g) = state g"
  "sound (spawnPowerup p t g) = sound g"
  "clock (spawnPowerup p t g) = clock g"
  "rng (spawnPowerup p t g) = rng g"
  "rngPos (spawnPowerup p t g) = rngPos g"
  by (simp_all add: spawnPowerup_def millis_def Let_def split: option.split prod.split)

section \<open>Loops over a pool\<close>

lemma fold_upd_length [simp]:
  "length (fold (\<lambda>i xs. xs[i := h (xs ! i)]) js xs) = length xs"
  by (induction js arbitrary: xs) simp_all

lemma fold_upd_nth_all:
  "\<forall>k<length xs.
     fold (\<lambda>i xs. xs[i := h (xs ! i)]) [0..<n] xs ! k = (if k < n then h (xs ! k) else xs ! k)"
proof (induction n)
  case 0
  then show ?case by simp
next
  case (Suc n)
  show ?case
  proof (intro allI impI)
    fix k assume k: "k < length xs"
    show "fold (\<lambda>i xs. xs[i := h (xs ! i)]) [0..<Suc n] xs ! k =
          (if k < Suc n then h (xs ! k) else xs ! k)"
    proof (cases "k = n")
      case True
      with k Suc show ?thesis by simp
    next
      case False
      with k Suc show ?thesis by (simp add: less_Suc_eq)
    qed
  qed
qed

lemma fold_upd_map:
  "n = length xs \<Longrightarrow> fold (\<lambda>i xs. xs[i := h (xs ! i)]) [0..<n] xs = map h xs"
  by (rule nth_equalityI) (simp_all add: fold_upd_nth_all)

lemma fold_enemies:
  "fold (\<lambda>i g. g\<lparr>enemies := F i (enemies g)\<rparr>) is g = g\<lparr>enemies := fold F is (enemies g)\<rparr>"
  by (induction "is" arbitrary: g) simp_all

lemma fold_playerBullets:
  "fold (\<lambda>i g. g\<lparr>playerBullets := F i (playerBullets g)\<rparr>) is g =
   g\<lparr>playerBullets := fold F is (playerBullets g)\<rparr>"
  by (induction "is" arbitrary: g) simp_all

lemma fold_enemyBullets:
  "fold (\<lambda>i g. g\<lparr>enemyBullets := F i (enemyBullets g)\<rparr>) is g =
   g\<lparr>enemyBullets := fold F is (enemyBullets g)\<rparr>"
  by (induction "is" arbitrary: g) simp_all

lemma fold_powerups:
  "fold (\<lambda>i g. g\<lparr>powerups := F i (powerups g)\<rparr>) is g = g\<lparr>powerups := fold F is (powerups g)\<rparr>"
  by (induction "is" arbitrary: g) simp_all

lemma fold_explosions:
  "fold (\<lambda>i g. g\<lparr>explosions := F i (explosions g)\<rparr>) is g =
   g\<lparr>explosions := fold F is (explosions g)\<rparr>"
  by (induction "is" arbitrary: g) simp_all

lemma fold_particles:
  "fold (\<lambda>i g. g\<lparr>particles := F i (particles g)\<rparr>) is g = g\<lparr>particles := fold F is (particles g)\<rparr>"
  by (induction "is" arbitrary: g) simp_all

section \<open>Reset\<close>

lemma init_eq:
  assumes "wf g"
  shows "init g =
     g\<lparr>state := TITLE, score := 0, lives := 3, wave := 1, scrollY := 0, playerWeaponLevel := 1,
       lastEnemySpawn := 0, lastPlayerShot := 0, clockPos := clockPos g + 1,
       player := Entity_init PLAYER (Vec2 240 260) (Vec2 0 0) 24 24 100 TFT_CYAN (clock g (clockPos g)),
       enemies := map (\<lambda>e. e\<lparr>active := False\<rparr>) (enemies g),
       playerBullets := map (\<lambda>e. e\<lparr>active := False\<rparr>) (playerBullets g),
       enemyBullets := map (\<lambda>e. e\<lparr>active := False\<rparr>) (enemyBullets g),
       powerups := map (\<lambda>e. e\<lparr>active := False\<rparr>) (powerups g),
       explosions := map (\<lambda>e. e\<lparr>active := False\<rparr>) (explosions g),
       particles := map (\<lambda>e. e\<lparr>active := False\<rparr>) (particles g)\<rparr>"
  using assms unfolding init_def wf_def Let_def millis_def
  by (simp add: 
        fold_enemies[where F="\<lambda>i xs. xs[i := (xs ! i)\<lparr>active := False\<rparr>]"]
        fold_playerBullets[where F="\<lambda>i xs. xs[i := (xs ! i)\<lparr>active := False\<rparr>]"]
        fold_enemyBullets[where F="\<lambda>i xs. xs[i := (xs ! i)\<lparr>active := False\<rparr>]"]
        fold_powerups[where F="\<lambda>i xs. xs[i := (xs ! i)\<lparr>active := False\<rparr>]"]
        fold_explosions[where F="\<lambda>i xs. xs[i := (xs ! i)\<lparr>active := False\<rparr>]"]
        fold_particles[where F="\<lambda>i xs. xs[i := (xs ! i)\<lparr>active := False\<rparr>]"]
        fold_upd_map[where h="\<lambda>e. e\<lparr>active := False\<rparr>"])


lemma wf_init: "wf g \<Longrightarrow> wf (init g)"
  by (simp add: init_eq) (simp add: wf_def)

text \<open>
  C8. From any Game-Over state, whatever its pools and counters hold, a frame whose input
  reports a touch ends in the Playing state with score 0, 3 lives, weapon level 1 and every
  slot of every pool inactive. The frame returns right after the reset: the first Playing
  frame is the next one.
\<close>

theorem restart_from_game_over:
  assumes "wf g" "state g = GAME_OVER" "isTouching inp"
  shows "state (update inp g) = PLAYING \<and> score (update inp g) = 0 \<and>
         lives (update inp g) = 3 \<and> playerWeaponLevel (update inp g) = 1 \<and>
         (\<forall>i<MAX_ENEMIES. \<not> active (enemies (update inp g) ! i)) \<and>
         (\<forall>i<MAX_PLAYER_BULLETS. \<not> active (playerBullets (update inp g) ! i)) \<and>
         (\<forall>i<MAX_ENEMY_BULLETS. \<not> active (enemyBullets (update inp g) ! i)) \<and>
         (\<forall>i<MAX_POWERUPS. \<not> active (powerups (update inp g) ! i)) \<and>
         (\<forall>i<MAX_EXPLOSIONS. \<not> active (explosions (update inp g) ! i)) \<and>
         (\<forall>i<MAX_PARTICLES. \<not> active (particles (update inp g) ! i)) \<and>
         wf (update inp g)"
proof -
  from assms have u: "update inp g = (init g)\<lparr>state := PLAYING\<rparr>"
    by (simp add: update_def startGame_def)
  from assms(1) have l: "length (enemies g) = 20" "length (playerBullets g) = 30"
      "length (enemyBullets g) = 40" "length (powerups g) = 5" "length (explosions g) = 10"
      "length (particles g) = 50"
    by (simp_all add: wf_def)
  show ?thesis
    unfolding u by (simp add: init_eq[OF assms(1)] l) (simp add: wf_def l)
qed

theorem restart_from_game_over_witness:
  "wf gameOverExample \<and> state gameOverExample = GAME_OVER \<and>
   active (enemies gameOverExample ! 7) \<and> active (particles gameOverExample ! 49) \<and>
   state (update \<lparr>joystickPos = Vec2 0 0, firePressed = False, isTouching = True\<rparr> gameOverExample) = PLAYING \<and>
   score (update \<lparr>joystickPos = Vec2 0 0, firePressed = False, isTouching = True\<rparr> gameOverExample) = 0 \<and>
   lives (update \<lparr>joystickPos = Vec2 0 0, firePressed = False, isTouching = True\<rparr> gameOverExample) = 3 \<and>
   playerWeaponLevel (update \<lparr>joystickPos = Vec2 0 0, firePressed = False, isTouching = True\<rparr> gameOverExample) = 1 \<and>
   \<not> active (enemies (update \<lparr>joystickPos = Vec2 0 0, firePressed = False, isTouching = True\<rparr> gameOverExample) ! 7) \<and>
   \<not> active (particles (update \<lparr>joystickPos = Vec2 0 0, firePressed = False, isTouching = True\<rparr> gameOverExample) ! 49)"
proof -
  let ?inp = "\<lparr>joystickPos = Vec2 0 0, firePressed = False, isTouching = True\<rparr>"
  have h: "wf gameOverExample" "state gameOverExample = GAME_OVER" "isTouching ?inp"
    by (simp_all add: gameOverExample_def wf_def zeroGame_def)
  have a: "active (enemies gameOverExample ! 7)" "active (particles gameOverExample ! 49)"
    by (simp_all add: gameOverExample_def zeroGame_def)
  from restart_from_game_over[OF h] h a show ?thesis by simp
qed

section \<open>Bullets\<close>

lemma updatePlayerBullet_eq:
  "updatePlayerBullet =
   (\<lambda>i g. g\<lparr>playerBullets := (\<lambda>i xs. xs[i := (\<lambda>b. if active b then movePlayerBullet b else b) (xs ! i)]) i (playerBullets g)\<rparr>)"
  by (rule ext, rule ext) (simp add: updatePlayerBullet_def)

lemma updateEnemyBullet_eq:
  "updateEnemyBullet =
   (\<lambda>i g. g\<lparr>enemyBullets := (\<lambda>i xs. xs[i := (\<lambda>b. if active b then moveEnemyBullet b else b) (xs ! i)]) i (enemyBullets g)\<rparr>)"
  by (rule ext, rule ext) (simp add: updateEnemyBullet_def)

lemma updateBullets_eq:
  assumes "wf g"
  shows "updateBullets g =
     g\<lparr>playerBullets := map (\<lambda>b. if active b then movePlayerBullet b else b) (playerBullets g),
       enemyBullets := map (\<lambda>b. if active b then moveEnemyBullet b else b) (enemyBullets g)\<rparr>"
proof -
  from assms have l: "length (playerBullets g) = 30" "length (enemyBullets g) = 40"
    by (simp_all add: wf_def)
  show ?thesis
    unfolding updateBullets_def updatePlayerBullet_eq updateEnemyBullet_eq
    by (simp add: l
          fold_playerBullets[where F="\<lambda>i xs. xs[i := if active (xs ! i) then movePlayerBullet (xs ! i) else xs ! i]"]
          fold_enemyBullets[where F="\<lambda>i xs. xs[i := if active (xs ! i) then moveEnemyBullet (xs ! i) else xs ! i]"]
          fold_upd_map[where h="\<lambda>b. if active b then movePlayerBullet b else b"]
          fold_upd_map[where h="\<lambda>b. if active b then moveEnemyBullet b else b"])
qed

lemma wf_updateBullets: "wf g \<Longrightarrow> wf (updateBullets g)"
  by (simp add: updateBullets_eq) (simp add: wf_def)

lemma wf_updateBullets_pow: "wf g \<Longrightarrow> wf ((updateBullets ^^ n) g)"
  by (induction n) (simp_all add: wf_updateBullets)

lemma playerBullet_slot:
  assumes "wf g" "i < MAX_PLAYER_BULLETS"
  shows "playerBullets (updateBullets g) ! i =
         (if active (playerBullets g ! i) then movePlayerBullet (playerBullets g ! i)
          else playerBullets g ! i)"
  using assms by (simp add: updateBullets_eq) (simp add: wf_def)

lemma playerBullet_track:
  assumes "wf g" "i < MAX_PLAYER_BULLETS" "active (playerBullets g ! i)"
  shows "(if \<forall>k\<in>{1..n}. \<not> vec_y (pos (playerBullets g ! i)) + real k * vec_y (vel (playerBullets g ! i)) < - 10
          then playerBullets ((updateBullets ^^ n) g) ! i =
               (playerBullets g ! i)\<lparr>pos := Vec2 (vec_x (pos (playerBullets g ! i)) + real n * vec_x (vel (playerBullets g ! i)))
                                              (vec_y (pos (playerBullets g ! i)) + real n * vec_y (vel (playerBullets g ! i)))\<rparr>
          else \<not> active (playerBullets ((updateBullets ^^ n) g) ! i))"
proof (induction n)
  case 0
  then show ?case by simp
next
  case (Suc n)
  let ?b = "playerBullets g ! i"
  let ?A = "\<lambda>n. \<forall>k\<in>{1..n}. \<not> vec_y (pos ?b) + real k * vec_y (vel ?b) < - 10"
  have s: "playerBullets ((updateBullets ^^ Suc n) g) ! i =
        (if active (playerBullets ((updateBullets ^^ n) g) ! i)
         then movePlayerBullet (playerBullets ((updateBullets ^^ n) g) ! i)
         else playerBullets ((updateBullets ^^ n) g) ! i)"
    using playerBullet_slot[OF wf_updateBullets_pow[OF assms(1)] assms(2), of n] by simp
  have A: "?A (Suc n) \<longleftrightarrow> ?A n \<and> \<not> vec_y (pos ?b) + real (Suc n) * vec_y (vel ?b) < - 10"
    by (auto simp add: atLeastAtMostSuc_conv)
  show ?case
  proof (cases "?A n")
    case True
    with Suc have e: "playerBullets ((updateBullets ^^ n) g) ! i =
        ?b\<lparr>pos := Vec2 (vec_x (pos ?b) + real n * vec_x (vel ?b)) (vec_y (pos ?b) + real n * vec_y (vel ?b))\<rparr>"
      by simp
    show ?thesis
      unfolding s e A using True assms(3)
      by (simp add: movePlayerBullet_def vadd_def deactivate_def Let_def algebra_simps)
  next
    case False
    with Suc have "\<not> active (playerBullets ((updateBullets ^^ n) g) ! i)" by simp
    with False show ?thesis unfolding s A by auto
  qed
qed

text \<open>
  C7. A player bullet that is active before \<open>n\<close> runs of \<^verbatim>\<open>updateBullets\<close> is still
  active after them iff none of its post-movement vertical positions
  \<open>y + k * vy\<close>, \<open>1 \<le> k \<le> n\<close>, was strictly below \<open>-10\<close>: it is deactivated in the
  first frame whose post-movement position is below \<open>-10\<close> and not before. While active
  it has moved by its velocity in every frame. (Collisions, which also deactivate bullets,
  are a different phase of the frame.)
\<close>

theorem player_bullet_culling:
  assumes "wf g" "i < MAX_PLAYER_BULLETS" "active (playerBullets g ! i)"
  shows "(active (playerBullets ((updateBullets ^^ n) g) ! i) \<longleftrightarrow>
          (\<forall>k\<in>{1..n}. \<not> vec_y (pos (playerBullets g ! i)) + real k * vec_y (vel (playerBullets g ! i)) < - 10)) \<and>
         (active (playerBullets ((updateBullets ^^ n) g) ! i) \<longrightarrow>
          vec_y (pos (playerBullets ((updateBullets ^^ n) g) ! i)) =
            vec_y (pos (playerBullets g ! i)) + real n * vec_y (vel (playerBullets g ! i)))"
  using playerBullet_track[OF assms, of n] assms(3)
  by (auto split: if_splits)


theorem player_bullet_culling_witness:
  "wf bulletExample \<and> active (playerBullets bulletExample ! 3) \<and>
   vec_y (pos (playerBullets bulletExample ! 3)) = 5 \<and>
   vec_y (vel (playerBullets bulletExample ! 3)) = - 8 \<and>
   active (playerBullets (updateBullets bulletExample) ! 3) \<and>
   vec_y (pos (playerBullets (updateBullets bulletExample) ! 3)) = - 3 \<and>
   \<not> active (playerBullets (updateBullets (updateBullets bulletExample)) ! 3) \<and>
   vec_y (pos (playerBullets (updateBullets (updateBullets bulletExample)) ! 3)) = - 11"
proof -
  have h: "wf bulletExample" "3 < MAX_PLAYER_BULLETS" "active (playerBullets bulletExample ! 3)"
    by (simp_all add: bulletExample_def wf_def zeroGame_def Entity_init_def)
  have v: "vec_y (pos (playerBullets bulletExample ! 3)) = 5"
          "vec_y (vel (playerBullets bulletExample ! 3)) = - 8"
    by (simp_all add: bulletExample_def zeroGame_def Entity_init_def)
  have s1: "{1..1::nat} = {1}" by simp
  have s2: "{1..2::nat} = {1, 2}" by auto
  have p1: "(updateBullets ^^ 1) bulletExample = updateBullets bulletExample" by simp
  have p2: "(updateBullets ^^ 2) bulletExample = updateBullets (updateBullets bulletExample)"
    by (simp add: numeral_2_eq_2)
  have a1: "active (playerBullets (updateBullets bulletExample) ! 3) \<and>
            vec_y (pos (playerBullets (updateBullets bulletExample) ! 3)) = - 3"
    using player_bullet_culling[OF h, of 1] unfolding p1 v s1 by simp
  have a2: "\<not> active (playerBullets (updateBullets (updateBullets bulletExample)) ! 3)"
    using player_bullet_culling[OF h, of 2] unfolding p2 v s2 by simp
  have b0: "playerBullets bulletExample ! 3 =
            Entity_init BULLET_PLAYER (Vec2 100 5) (Vec2 0 (- 8)) 4 8 1 TFT_WHITE 0"
    by (simp add: bulletExample_def zeroGame_def)
  have y2: "vec_y (pos (playerBullets (updateBullets (updateBullets bulletExample)) ! 3)) = - 11"
    unfolding playerBullet_slot[OF wf_updateBullets[OF h(1)] h(2)] playerBullet_slot[OF h(1) h(2)] b0
    by (simp add: Entity_init_def movePlayerBullet_def vadd_def deactivate_def Let_def)
  from h v a1 a2 y2 show ?thesis by simp
qed

section \<open>Array sizes and counters through a frame\<close>

lemma poolSizes_update [simp]:
  "poolSizes (g\<lparr>player := a0\<rparr>) = poolSizes g"
  "length xs = length (enemies g) \<Longrightarrow> poolSizes (g\<lparr>enemies := xs\<rparr>) = poolSizes g"
  "length xs = length (playerBullets g) \<Longrightarrow> poolSizes (g\<lparr>playerBullets := xs\<rparr>) = poolSizes g"
  "length xs = length (enemyBullets g) \<Longrightarrow> poolSizes (g\<lparr>enemyBullets := xs\<rparr>) = poolSizes g"
  "length xs = length (powerups g) \<Longrightarrow> poolSizes (g\<lparr>powerups := xs\<rparr>) = poolSizes g"
  "length xs = length (explosions g) \<Longrightarrow> poolSizes (g\<lparr>explosions := xs\<rparr>) = poolSizes g"
  "length xs = length (particles g) \<Longrightarrow> poolSizes (g\<lparr>particles := xs\<rparr>) = poolSizes g"
  "poolSizes (g\<lparr>score := a7\<rparr>) = poolSizes g"
  "poolSizes (g\<lparr>lives := a8\<rparr>) = poolSizes g"
  "poolSizes (g\<lparr>wave := a9\<rparr>) = poolSizes g"
  "poolSizes (g\<lparr>scrollY := a10\<rparr>) = poolSizes g"
  "poolSizes (g\<lparr>lastEnemySpawn := a11\<rparr>) = poolSizes g"
  "poolSizes (g\<lparr>lastPlayerShot := a12\<rparr>) = poolSizes g"
  "poolSizes (g\<lparr>playerWeaponLevel := a13\<rparr>) = poolSizes g"
  "poolSizes (g\<lparr>state := a14\<rparr>) = poolSizes g"
  "poolSizes (g\<lparr>sound := a15\<rparr>) = poolSizes g"
  "poolSizes (g\<lparr>clock := a16\<rparr>) = poolSizes g"
  "poolSizes (g\<lparr>clockPos := a17\<rparr>) = poolSizes g"
  "poolSizes (g\<lparr>rng := a18\<rparr>) = poolSizes g"
  "poolSizes (g\<lparr>rngPos := a19\<rparr>) = poolSizes g"
  by (simp_all add: poolSizes_def)

lemma poolSizes_prims [simp]:
  "poolSizes (snd (millis g)) = poolSizes g"
  "poolSizes (snd (random lo hi g)) = poolSizes g"
  "poolSizes (play effect g) = poolSizes g"
  "poolSizes (spawnEnemy t p v g) = poolSizes g"
  "poolSizes (spawnPlayerBullet p v g) = poolSizes g"
  "poolSizes (spawnEnemyBullet p v g) = poolSizes g"
  "poolSizes (spawnParticle p v g) = poolSizes g"
  "poolSizes (spawnExplosionEntity p sz g) = poolSizes g"
  "poolSizes (spawnPowerup p t g) = poolSizes g"
  by (simp_all add: poolSizes_def)

lemma spawnExplosion_frame [simp]:
  "player (spawnExplosion p sz g) = player g"
  "enemies (spawnExplosion p sz g) = enemies g"
  "playerBullets (spawnExplosion p sz g) = playerBullets g"
  "enemyBullets (spawnExplosion p sz g) = enemyBullets g"
  "powerups (spawnExplosion p sz g) = powerups g"
  "score (spawnExplosion p sz g) = score g"
  "lives (spawnExplosion p sz g) = lives g"
  "playerWeaponLevel (spawnExplosion p sz g) = playerWeaponLevel g"
  "state (spawnExplosion p sz g) = state g"
  "rng (spawnExplosion p sz g) = rng g"
  "rngPos (spawnExplosion p sz g) = rngPos g"
  "clock (spawnExplosion p sz g) = clock g"
  "poolSizes (spawnExplosion p sz g) = poolSizes g"
  unfolding spawnExplosion_def
  by (simp_all add: fold_pres[where h=player] fold_pres[where h=enemies]
        fold_pres[where h=playerBullets] fold_pres[where h=enemyBullets]
        fold_pres[where h=powerups] fold_pres[where h=score] fold_pres[where h=lives]
        fold_pres[where h=playerWeaponLevel] fold_pres[where h=state] fold_pres[where h=rng]
        fold_pres[where h=rngPos] fold_pres[where h=clock] fold_pres[where h=poolSizes])

lemma updatePlayer_frame [simp]:
  "lives (updatePlayer inp g) = lives g"
  "state (updatePlayer inp g) = state g"
  "poolSizes (updatePlayer inp g) = poolSizes g"
  by (simp_all add: updatePlayer_def Let_def case_prod_beta)

lemma spawnEnemies_frame [simp]:
  "lives (spawnEnemies g) = lives g"
  "state (spawnEnemies g) = state g"
  "poolSizes (spawnEnemies g) = poolSizes g"
  by (simp_all add: spawnEnemies_def Let_def case_prod_beta)

lemma updateEnemy_frame [simp]:
  "lives (updateEnemy i g) = lives g"
  "state (updateEnemy i g) = state g"
  "poolSizes (updateEnemy i g) = poolSizes g"
  by (simp_all add: updateEnemy_def Let_def case_prod_beta)

lemma updateEnemies_frame [simp]:
  "lives (updateEnemies g) = lives g"
  "state (updateEnemies g) = state g"
  "poolSizes (updateEnemies g) = poolSizes g"
  by (simp_all add: updateEnemies_def fold_pres[where h=lives] fold_pres[where h=state]
        fold_pres[where h=poolSizes])

lemma updateBullet_frame [simp]:
  "lives (updatePlayerBullet i g) = lives g"
  "state (updatePlayerBullet i g) = state g"
  "poolSizes (updatePlayerBullet i g) = poolSizes g"
  "lives (updateEnemyBullet i g) = lives g"
  "state (updateEnemyBullet i g) = state g"
  "poolSizes (updateEnemyBullet i g) = poolSizes g"
  by (simp_all add: updatePlayerBullet_def updateEnemyBullet_def)

lemma updateBullets_frame [simp]:
  "lives (updateBullets g) = lives g"
  "state (updateBullets g) = state g"
  "poolSizes (updateBullets g) = poolSizes g"
  by (simp_all add: updateBullets_def fold_pres[where h=lives] fold_pres[where h=state]
        fold_pres[where h=poolSizes])

lemma updatePowerup_frame [simp]:
  "lives (updatePowerup i g) = lives g"
  "state (updatePowerup i g) = state g"
  "poolSizes (updatePowerup i g) = poolSizes g"
  by (simp_all add: updatePowerup_def)

lemma updatePowerups_frame [simp]:
  "lives (updatePowerups g) = lives g"
  "state (updatePowerups g) = state g"
  "poolSizes (updatePowerups g) = poolSizes g"
  by (simp_all add: updatePowerups_def fold_pres[where h=lives] fold_pres[where h=state]
        fold_pres[where h=poolSizes])

lemma updateExplosion_frame [simp]:
  "lives (updateExplosion i g) = lives g"
  "state (updateExplosion i g) = state g"
  "poolSizes (updateExplosion i g) = poolSizes g"
  by (simp_all add: updateExplosion_def Let_def case_prod_beta)

lemma updateExplosions_frame [simp]:
  "lives (updateExplosions g) = lives g"
  "state (updateExplosions g) = state g"
  "poolSizes (updateExplosions g) = poolSizes g"
  by (simp_all add: updateExplosions_def fold_pres[where h=lives] fold_pres[where h=state]
        fold_pres[where h=poolSizes])

lemma updateParticle_frame [simp]:
  "lives (updateParticle i g) = lives g"
  "state (updateParticle i g) = state g"
  "poolSizes (updateParticle i g) = poolSizes g"
  by (simp_all add: updateParticle_def)

lemma updateParticles_frame [simp]:
  "lives (updateParticles g) = lives g"
  "state (updateParticles g) = state g"
  "poolSizes (updateParticles g) = poolSizes g"
  by (simp_all add: updateParticles_def fold_pres[where h=lives] fold_pres[where h=state]
        fold_pres[where h=poolSizes])

lemma hitEnemy_frame [simp]:
  "lives (hitEnemy i j g) = lives g"
  "state (hitEnemy i j g) = state g"
  "poolSizes (hitEnemy i j g) = poolSizes g"
  by (simp_all add: hitEnemy_def Let_def case_prod_beta)

lemma bulletVsEnemies_frame [simp]:
  "lives (bulletVsEnemies i g) = lives g"
  "state (bulletVsEnemies i g) = state g"
  "poolSizes (bulletVsEnemies i g) = poolSizes g"
  by (simp_all add: bulletVsEnemies_def split: option.split)

lemma enemyBulletVsPlayer_frame [simp]:
  "state (enemyBulletVsPlayer i g) = state g"
  "poolSizes (enemyBulletVsPlayer i g) = poolSizes g"
  by (simp_all add: enemyBulletVsPlayer_def Let_def)

lemma enemyVsPlayer_frame [simp]:
  "state (enemyVsPlayer i g) = state g"
  "poolSizes (enemyVsPlayer i g) = poolSizes g"
  by (simp_all add: enemyVsPlayer_def Let_def)

lemma powerupVsPlayer_frame [simp]:
  "state (powerupVsPlayer i g) = state g"
  "poolSizes (powerupVsPlayer i g) = poolSizes g"
  by (simp_all add: powerupVsPlayer_def Let_def)

lemma checkCollisions_frame [simp]:
  "state (checkCollisions g) = state g"
  "poolSizes (checkCollisions g) = poolSizes g"
  by (simp_all add: checkCollisions_def fold_pres[where h=state] fold_pres[where h=poolSizes])

section \<open>Spawning\<close>


lemma activeCount_update:
  "i < length pool \<Longrightarrow>
   activeCount (pool[i := e]) + (if active (pool ! i) then 1 else 0) =
   activeCount pool + (if active e then 1 else 0)"
proof (induction pool arbitrary: i)
  case Nil
  then show ?case by simp
next
  case (Cons a pool)
  then show ?case
    by (cases i) (auto simp: activeCount_def)
qed

lemma activeCount_spawn:
  "i < length pool \<Longrightarrow> \<not> active (pool ! i) \<Longrightarrow> active e \<Longrightarrow>
   activeCount (pool[i := e]) = Suc (activeCount pool)"
  using activeCount_update[of i pool e] by simp

lemma activeCount_full:
  "activeCount pool = length pool \<longleftrightarrow> (\<forall>i<length pool. active (pool ! i))"
proof
  assume "activeCount pool = length pool"
  then have "filter active pool = pool"
    unfolding activeCount_def by (metis length_filter_less filter_id_conv less_irrefl)
  then have "\<forall>e\<in>set pool. active e" by (simp add: filter_id_conv)
  then show "\<forall>i<length pool. active (pool ! i)" by simp
next
  assume "\<forall>i<length pool. active (pool ! i)"
  then have "\<forall>e\<in>set pool. active e" by (auto simp: in_set_conv_nth)
  then show "activeCount pool = length pool" by (simp add: activeCount_def)
qed

lemma findFree_None_count:
  "length pool = n \<Longrightarrow> findFree pool n = None \<longleftrightarrow> activeCount pool = n"
  using activeCount_full[of pool] by (auto simp: findFree_None)

lemma findFree_free:
  "length pool = n \<Longrightarrow> activeCount pool < n \<Longrightarrow> \<exists>i. findFree pool n = Some i"
  using findFree_None_count[of pool n] by (cases "findFree pool n") auto

lemma spawnParticle_eq:
  "spawnParticle p v g =
     (case findFree (particles g) MAX_PARTICLES of
        None \<Rightarrow> g
      | Some i \<Rightarrow>
          g\<lparr>clockPos := clockPos g + 1,
            particles := (particles g)
              [i := Entity_init PARTICLE p v 2 2 10 TFT_YELLOW (clock g (clockPos g))]\<rparr>)"
  by (simp add: spawnParticle_def millis_def split: option.split)

lemma spawnExplosionEntity_eq:
  "spawnExplosionEntity p sz g =
     (case findFree (explosions g) MAX_EXPLOSIONS of
        None \<Rightarrow> g
      | Some i \<Rightarrow>
          g\<lparr>clockPos := clockPos g + 1,
            explosions := (explosions g)
              [i := Entity_init EXPLOSION p (Vec2 0 0) sz sz 6 TFT_ORANGE (clock g (clockPos g))]\<rparr>)"
  by (simp add: spawnExplosionEntity_def millis_def split: option.split)

lemma burst_refl: "burst p xs xs"
  by (simp add: burst_def)

lemma burst_trans: "burst p xs ys \<Longrightarrow> burst p ys zs \<Longrightarrow> burst p xs zs"
  unfolding burst_def newParticle_def by (auto; metis)

lemma spawnParticle_burst:
  "length (particles g) = MAX_PARTICLES \<Longrightarrow>
   burst p (particles g) (particles (spawnParticle p v g))"
  by (auto simp: spawnParticle_eq burst_def newParticle_def Entity_init_def nth_list_update
      findFree_Some split: option.split)

lemma spawnParticle_count:
  assumes "length (particles g) = MAX_PARTICLES" "activeCount (particles g) < MAX_PARTICLES"
  shows "activeCount (particles (spawnParticle p v g)) = Suc (activeCount (particles g))"
proof -
  from findFree_free[OF assms] obtain i where i: "findFree (particles g) MAX_PARTICLES = Some i"
    by blast
  then have "i < length (particles g)" "\<not> active (particles g ! i)"
    using assms(1) by (simp_all add: findFree_Some)
  then show ?thesis
    by (simp add: spawnParticle_eq i activeCount_spawn Entity_init_def)
qed

lemma particles_fold:
  assumes "length (particles g) = MAX_PARTICLES"
  shows "activeCount (particles g) + k \<le> MAX_PARTICLES \<Longrightarrow>
         length (particles (fold (\<lambda>j g. spawnParticle p (particleVel j) g) [0..<k] g)) = MAX_PARTICLES \<and>
         activeCount (particles (fold (\<lambda>j g. spawnParticle p (particleVel j) g) [0..<k] g)) =
           activeCount (particles g) + k \<and>
         burst p (particles g) (particles (fold (\<lambda>j g. spawnParticle p (particleVel j) g) [0..<k] g))"
proof (induction k)
  case 0
  with assms show ?case by (simp add: burst_refl)
next
  case (Suc k)
  let ?g = "fold (\<lambda>j g. spawnParticle p (particleVel j) g) [0..<k] g"
  from Suc have ih: "length (particles ?g) = MAX_PARTICLES"
    "activeCount (particles ?g) = activeCount (particles g) + k"
    "burst p (particles g) (particles ?g)" by simp_all
  from Suc.prems ih(2) have lt: "activeCount (particles ?g) < MAX_PARTICLES" by simp
  show ?case
    using spawnParticle_count[OF ih(1) lt, of p "particleVel k"]
      burst_trans[OF ih(3) spawnParticle_burst[OF ih(1), of p "particleVel k"]] ih(1,2)
    by simp
qed

section \<open>Spawning into a full pool\<close>






section \<open>Invariants of the reachable states\<close>

lemma fold_lives_dec:
  assumes "\<And>i s. lives s - 1 \<le> lives (f i s) \<and> lives (f i s) \<le> lives s"
  shows "lives s - int (length xs) \<le> lives (fold f xs s) \<and> lives (fold f xs s) \<le> lives s"
proof (induction xs arbitrary: s)
  case Nil
  then show ?case by simp
next
  case (Cons a xs)
  from Cons[of "f a s"] assms[of s a] show ?case by simp
qed

lemma fold_lives_inc:
  assumes "\<And>i s. min (lives s) 5 \<le> lives (f i s) \<and> lives (f i s) \<le> max (lives s) 5"
  shows "min (lives s) 5 \<le> lives (fold f xs s) \<and> lives (fold f xs s) \<le> max (lives s) 5"
proof (induction xs arbitrary: s)
  case Nil
  then show ?case by simp
next
  case (Cons a xs)
  from Cons[of "f a s"] assms[of s a] show ?case by auto
qed

lemma enemyBulletVsPlayer_lives:
  "lives g - 1 \<le> lives (enemyBulletVsPlayer i g) \<and> lives (enemyBulletVsPlayer i g) \<le> lives g"
  by (simp add: enemyBulletVsPlayer_def Let_def)

lemma enemyVsPlayer_lives:
  "lives g - 1 \<le> lives (enemyVsPlayer i g) \<and> lives (enemyVsPlayer i g) \<le> lives g"
  by (simp add: enemyVsPlayer_def Let_def)

lemma powerupVsPlayer_lives:
  "min (lives g) 5 \<le> lives (powerupVsPlayer i g) \<and>
   lives (powerupVsPlayer i g) \<le> max (lives g) 5"
  by (auto simp add: powerupVsPlayer_def Let_def)

lemma checkCollisions_lives:
  "min (lives g - 60) 5 \<le> lives (checkCollisions g) \<and>
   lives (checkCollisions g) \<le> max (lives g) 5"
proof -
  let ?g1 = "fold bulletVsEnemies [0..<MAX_PLAYER_BULLETS] g"
  let ?g2 = "fold enemyBulletVsPlayer [0..<MAX_ENEMY_BULLETS] ?g1"
  let ?g3 = "fold enemyVsPlayer [0..<MAX_ENEMIES] ?g2"
  have 1: "lives ?g1 = lives g" by (simp add: fold_pres[where h=lives])
  have 2: "lives ?g1 - 40 \<le> lives ?g2 \<and> lives ?g2 \<le> lives ?g1"
    using fold_lives_dec[of enemyBulletVsPlayer ?g1 "[0..<MAX_ENEMY_BULLETS]"]
      enemyBulletVsPlayer_lives by simp
  have 3: "lives ?g2 - 20 \<le> lives ?g3 \<and> lives ?g3 \<le> lives ?g2"
    using fold_lives_dec[of enemyVsPlayer ?g2 "[0..<MAX_ENEMIES]"] enemyVsPlayer_lives by simp
  have 4: "min (lives ?g3) 5 \<le> lives (checkCollisions g) \<and>
           lives (checkCollisions g) \<le> max (lives ?g3) 5"
    unfolding checkCollisions_def
    using fold_lives_inc[of powerupVsPlayer ?g3 "[0..<MAX_POWERUPS]"] powerupVsPlayer_lives by simp
  from 1 2 3 4 show ?thesis by linarith
qed

lemma wf_poolSizes_eq: "poolSizes g' = poolSizes g \<Longrightarrow> wf g' = wf g"
  by (simp add: wf_poolSizes)

text \<open>The state in which a Playing frame leaves the game before the game-over check.\<close>

lemma update_playing:
  assumes "state g = PLAYING"
  shows "\<exists>g'. update inp g = (if lives g' \<le> 0 then g'\<lparr>state := GAME_OVER\<rparr> else g') \<and>
              state g' = PLAYING \<and> poolSizes g' = poolSizes g \<and>
              min (lives g - 60) 5 \<le> lives g' \<and> lives g' \<le> max (lives g) 5"
proof -
  let ?g0 = "g\<lparr>scrollY := scrollY g + 1\<rparr>"
  let ?g1 = "if scrollY ?g0 > 32 then ?g0\<lparr>scrollY := 0\<rparr> else ?g0"
  let ?g8 = "updateParticles (updateExplosions (updatePowerups (updateBullets (updateEnemies
              (spawnEnemies (updatePlayer inp ?g1))))))"
  let ?g' = "checkCollisions ?g8"
  have u: "update inp g = (if lives ?g' \<le> 0 then ?g'\<lparr>state := GAME_OVER\<rparr> else ?g')"
    using assms by (simp add: update_def Let_def)
  have s: "state ?g' = PLAYING" "poolSizes ?g' = poolSizes g" "lives ?g8 = lives g"
    using assms by simp_all
  from checkCollisions_lives[of ?g8] s(3)
  have l: "min (lives g - 60) 5 \<le> lives ?g' \<and> lives ?g' \<le> max (lives g) 5" by simp
  from u s l show ?thesis by blast
qed

lemma reachable_invariant:
  assumes "reachable g"
  shows "wf g \<and> lives g \<le> 5 \<and> - 59 \<le> lives g \<and> (state g = GAME_OVER \<longrightarrow> lives g \<le> 0) \<and>
         (state g \<noteq> GAME_OVER \<longrightarrow> 1 \<le> lives g)"
  using assms
proof (induction rule: reachable.induct)
  case (boot g0)
  then show ?case by (simp add: wf_init) (simp add: init_eq)
next
  case (frame g inp)
  show ?case
  proof (cases "state g")
    case TITLE
    with frame show ?thesis
      by (simp add: update_def startGame_def wf_init wf_def[of "init g\<lparr>state := PLAYING\<rparr>"])
         (simp add: init_eq wf_def)
  next
    case GAME_OVER
    with frame show ?thesis
      by (simp add: update_def startGame_def wf_init wf_def[of "init g\<lparr>state := PLAYING\<rparr>"])
         (simp add: init_eq wf_def)
  next
    case PLAYING
    from update_playing[OF PLAYING, of inp] obtain g' where
      g': "update inp g = (if lives g' \<le> 0 then g'\<lparr>state := GAME_OVER\<rparr> else g')"
      "state g' = PLAYING" "poolSizes g' = poolSizes g"
      "min (lives g - 60) 5 \<le> lives g'" "lives g' \<le> max (lives g) 5" by blast
    from frame PLAYING have l: "1 \<le> lives g" "lives g \<le> 5" "wf g" by simp_all
    from g'(3) l(3) have w: "wf g'" by (simp add: wf_poolSizes)
    then have w': "wf (g'\<lparr>state := GAME_OVER\<rparr>)" by (simp add: wf_def)
    from g' l w w' show ?thesis by auto
  qed
qed

section \<open>Pool capacity\<close>


lemma spawn_pools:
  "enemies (spawnEnemy t p v g) =
     (case findFree (enemies g) MAX_ENEMIES of None \<Rightarrow> enemies g
      | Some i \<Rightarrow> (enemies g)[i := Entity_init t p v (snd (snd (enemyStats t))) (snd (snd (enemyStats t)))
                       (fst (enemyStats t)) (fst (snd (enemyStats t))) (clock g (clockPos g))])"
  "playerBullets (spawnPlayerBullet p v g) =
     (case findFree (playerBullets g) MAX_PLAYER_BULLETS of None \<Rightarrow> playerBullets g
      | Some i \<Rightarrow> (playerBullets g)[i := Entity_init BULLET_PLAYER p v 4 8 1 TFT_WHITE (clock g (clockPos g))])"
  "enemyBullets (spawnEnemyBullet p v g) =
     (case findFree (enemyBullets g) MAX_ENEMY_BULLETS of None \<Rightarrow> enemyBullets g
      | Some i \<Rightarrow> (enemyBullets g)[i := Entity_init BULLET_ENEMY p v 4 8 1 TFT_ORANGE (clock g (clockPos g))])"
  "powerups (spawnPowerup p t g) =
     (case findFree (powerups g) MAX_POWERUPS of None \<Rightarrow> powerups g
      | Some i \<Rightarrow> (powerups g)[i := Entity_init t p (Vec2 0 1) 16 16 1
                       (if t = POWERUP_WEAPON then TFT_GREEN else TFT_MAGENTA) (clock g (clockPos g))])"
  "particles (spawnParticle p v g) =
     (case findFree (particles g) MAX_PARTICLES of None \<Rightarrow> particles g
      | Some i \<Rightarrow> (particles g)[i := Entity_init PARTICLE p v 2 2 10 TFT_YELLOW (clock g (clockPos g))])"
  "explosions (spawnExplosionEntity p sz g) =
     (case findFree (explosions g) MAX_EXPLOSIONS of None \<Rightarrow> explosions g
      | Some i \<Rightarrow> (explosions g)[i := Entity_init EXPLOSION p (Vec2 0 0) sz sz 6 TFT_ORANGE (clock g (clockPos g))])"
  by (simp_all add: spawnEnemy_def spawnPlayerBullet_def spawnEnemyBullet_def spawnPowerup_def
        spawnParticle_def spawnExplosionEntity_def millis_def Let_def case_prod_beta
        split: option.split)

lemma explosions_spawnExplosion:
  "explosions (spawnExplosion p sz g) = explosions (spawnExplosionEntity p sz g)"
  by (simp add: spawnExplosion_def fold_pres[where h=explosions])

lemma active_Entity_init [simp]: "active (Entity_init t p v w h hp col now)"
  by (simp add: Entity_init_def)










section \<open>Player bullets against enemies\<close>

lemma find_bulletHits:
  "find (\<lambda>j. active (enemies g ! j) \<and>
             intersects (getRect (playerBullets g ! i)) (getRect (enemies g ! j))) [0..<n] = Some j
   \<longleftrightarrow> j < n \<and> bulletHits g i j \<and> (\<forall>k<j. \<not> bulletHits g i k)"
  by (auto simp: find_Some_iff bulletHits_def)

lemma bulletVsEnemies_first:
  assumes "active (playerBullets g ! i)" "j < MAX_ENEMIES" "bulletHits g i j"
    "\<forall>k<j. \<not> bulletHits g i k"
  shows "bulletVsEnemies i g = hitEnemy i j g"
proof -
  from assms(2-4) have "find (\<lambda>j. active (enemies g ! j) \<and>
      intersects (getRect (playerBullets g ! i)) (getRect (enemies g ! j))) [0..<MAX_ENEMIES] = Some j"
    by (simp add: find_bulletHits)
  with assms(1) show ?thesis by (simp add: bulletVsEnemies_def)
qed

lemma hitEnemy_enemies:
  assumes "j < length (enemies g)"
  shows "enemies (hitEnemy i j g) =
     (enemies g)[j := (if health (enemies g ! j) - 10 \<le> 0
                       then deactivate ((enemies g ! j)\<lparr>health := health (enemies g ! j) - 10\<rparr>)
                       else (enemies g ! j)\<lparr>health := health (enemies g ! j) - 10\<rparr>)]"
  using assms by (simp add: hitEnemy_def Let_def case_prod_beta)

lemma hitEnemy_playerBullets:
  "playerBullets (hitEnemy i j g) = (playerBullets g)[i := deactivate (playerBullets g ! i)]"
  by (simp add: hitEnemy_def Let_def case_prod_beta)

lemma hitEnemy_score:
  assumes "j < length (enemies g)"
  shows "score (hitEnemy i j g) =
         (if health (enemies g ! j) - 10 \<le> 0 then score g + 100 else score g)"
  using assms by (simp add: hitEnemy_def Let_def case_prod_beta)

text \<open>
  C5. When an active player bullet intersects active enemies, the one with the lowest pool
  index \<open>j\<close> loses 10 hit points, every other enemy slot, and so every other enemy that
  the bullet intersects, is left exactly as it was by that bullet's scan, and the bullet is
  deactivated.
\<close>

theorem first_intersecting_enemy_takes_damage:
  assumes "wf g" "i < MAX_PLAYER_BULLETS" "active (playerBullets g ! i)"
    "j < MAX_ENEMIES" "bulletHits g i j" "\<forall>k<j. \<not> bulletHits g i k"
  shows "health (enemies (bulletVsEnemies i g) ! j) = health (enemies g ! j) - 10 \<and>
         (\<forall>k<MAX_ENEMIES. k \<noteq> j \<longrightarrow> enemies (bulletVsEnemies i g) ! k = enemies g ! k) \<and>
         \<not> active (playerBullets (bulletVsEnemies i g) ! i)"
proof -
  from assms(1) have l: "length (enemies g) = 20" "length (playerBullets g) = 30"
    by (simp_all add: wf_def)
  have e: "bulletVsEnemies i g = hitEnemy i j g"
    using assms(3-6) by (rule bulletVsEnemies_first)
  show ?thesis
    unfolding e using l assms(2,4)
    by (simp add: hitEnemy_enemies hitEnemy_playerBullets deactivate_def)
qed

theorem first_intersecting_enemy_takes_damage_witness:
  "wf collisionExample \<and> active (playerBullets collisionExample ! 2) \<and>
   bulletHits collisionExample 2 3 \<and> bulletHits collisionExample 2 7 \<and>
   \<not> bulletHits collisionExample 2 0 \<and> \<not> bulletHits collisionExample 2 1 \<and>
   \<not> bulletHits collisionExample 2 2 \<and>
   health (enemies collisionExample ! 3) = 10 \<and>
   health (enemies (bulletVsEnemies 2 collisionExample) ! 3) = 0 \<and>
   enemies (bulletVsEnemies 2 collisionExample) ! 7 = enemies collisionExample ! 7 \<and>
   health (enemies (bulletVsEnemies 2 collisionExample) ! 7) = 30 \<and>
   \<not> active (playerBullets (bulletVsEnemies 2 collisionExample) ! 2)"
proof -
  let ?g = collisionExample
  have b: "playerBullets ?g ! 2 = Entity_init BULLET_PLAYER (Vec2 100 100) (Vec2 0 (- 8)) 4 8 1 TFT_WHITE 0"
    by (simp add: collisionExample_def zeroGame_def)
  have e3: "enemies ?g ! 3 = Entity_init ENEMY_BASIC (Vec2 100 100) (Vec2 0 1.5) 20 20 10 TFT_RED 0"
    by (simp add: collisionExample_def zeroGame_def)
  have e7: "enemies ?g ! 7 = Entity_init ENEMY_TANK (Vec2 102 98) (Vec2 0 0.8) 28 28 30 TFT_PURPLE 0"
    by (simp add: collisionExample_def zeroGame_def)
  have lo: "enemies ?g ! k = zeroEntity" if "k < 3" for k
    using that by (simp add: collisionExample_def zeroGame_def)
  have h: "wf ?g" "2 < MAX_PLAYER_BULLETS" "active (playerBullets ?g ! 2)" "3 < MAX_ENEMIES"
    "bulletHits ?g 2 3" "\<forall>k<3. \<not> bulletHits ?g 2 k"
    unfolding bulletHits_def b e3
    by (simp_all add: lo zeroEntity_def)
       (simp_all add: collisionExample_def zeroGame_def wf_def Entity_init_def getRect_def
          intersects_def)
  have h7: "bulletHits ?g 2 7"
    unfolding bulletHits_def b e7 by (simp add: Entity_init_def getRect_def intersects_def)
  have n: "\<not> bulletHits ?g 2 0" "\<not> bulletHits ?g 2 1" "\<not> bulletHits ?g 2 2"
    using h(6) by simp_all
  have v: "health (enemies ?g ! 3) = 10" "health (enemies ?g ! 7) = 30"
    unfolding e3 e7 by (simp_all add: Entity_init_def)
  from first_intersecting_enemy_takes_damage[OF h] h h7 n v show ?thesis
    by simp
qed

lemma hitEnemy_lethal_pools:
  assumes "j < length (enemies g)" "health (enemies g ! j) - 10 \<le> 0"
  shows "explosions (hitEnemy i j g) =
           explosions (spawnExplosionEntity (pos (enemies g ! j)) (width (enemies g ! j))
             (g\<lparr>playerBullets := (playerBullets g)[i := deactivate (playerBullets g ! i)],
                enemies := (enemies g)[j := (enemies g ! j)\<lparr>health := health (enemies g ! j) - 10\<rparr>],
                score := score g + 100\<rparr>))"
    "particles (hitEnemy i j g) =
           particles (fold (\<lambda>k g'. spawnParticle (pos (enemies g ! j)) (particleVel k) g') [0..<8]
             (spawnExplosionEntity (pos (enemies g ! j)) (width (enemies g ! j))
               (g\<lparr>playerBullets := (playerBullets g)[i := deactivate (playerBullets g ! i)],
                  enemies := (enemies g)[j := (enemies g ! j)\<lparr>health := health (enemies g ! j) - 10\<rparr>],
                  score := score g + 100\<rparr>)))"
  using assms
  by (simp_all add: hitEnemy_def Let_def case_prod_beta explosions_spawnExplosion)
     (simp add: spawnExplosion_def)

lemma sint_add_100:
  fixes x :: "32 word"
  assumes "sint x \<le> 2147483547"
  shows "sint (x + 100) = sint x + 100"
proof -
  have lo: "- (2 ^ 31) \<le> sint x" using sint_ge[of x] by simp
  have "sint (x + 100) = signed_take_bit 31 (sint x + sint (100 :: 32 word))"
    by (simp add: sint_word_ariths)
  also have "sint (100 :: 32 word) = 100" by simp
  also have "signed_take_bit 31 (sint x + 100) = sint x + 100"
    using assms lo by (simp add: signed_take_bit_int_eq_self)
  finally show ?thesis .
qed

lemma highScoreExample_hit:
  "wf highScoreExample" "2 < MAX_PLAYER_BULLETS" "active (playerBullets highScoreExample ! 2)"
  "3 < MAX_ENEMIES" "bulletHits highScoreExample 2 3" "\<forall>k<3. \<not> bulletHits highScoreExample 2 k"
proof -
  have b: "playerBullets highScoreExample ! 2 =
      Entity_init BULLET_PLAYER (Vec2 100 100) (Vec2 0 (- 8)) 4 8 1 TFT_WHITE 0"
    by (simp add: highScoreExample_def collisionExample_def zeroGame_def)
  have e3: "enemies highScoreExample ! 3 =
      Entity_init ENEMY_BASIC (Vec2 100 100) (Vec2 0 1.5) 20 20 10 TFT_RED 0"
    by (simp add: highScoreExample_def collisionExample_def zeroGame_def)
  have lo: "enemies highScoreExample ! k = zeroEntity" if "k < 3" for k
    using that by (simp add: highScoreExample_def collisionExample_def zeroGame_def)
  show "wf highScoreExample" "2 < MAX_PLAYER_BULLETS" "active (playerBullets highScoreExample ! 2)"
    "3 < MAX_ENEMIES" "bulletHits highScoreExample 2 3" "\<forall>k<3. \<not> bulletHits highScoreExample 2 k"
    unfolding bulletHits_def b e3
    by (simp_all add: lo zeroEntity_def)
       (simp_all add: highScoreExample_def collisionExample_def zeroGame_def wf_def Entity_init_def
          getRect_def intersects_def)
qed

text \<open>
  C6, as the specification states it, fails at the top of the 32-bit score counter: with a
  score of 2147483600, the lethal hit on the enemy of slot 3 (10 hit points, the first enemy
  that the bullet of slot 2 intersects) leaves the score at \<open>-2147483596\<close>, not 100 higher.
\<close>

theorem lethal_hit_score_counterexample:
  "active (playerBullets highScoreExample ! 2) \<and> bulletHits highScoreExample 2 3 \<and>
   \<not> bulletHits highScoreExample 2 0 \<and> \<not> bulletHits highScoreExample 2 1 \<and>
   \<not> bulletHits highScoreExample 2 2 \<and>
   health (enemies highScoreExample ! 3) = 10 \<and>
   findFree (explosions highScoreExample) MAX_EXPLOSIONS = Some 0 \<and>
   activeCount (particles highScoreExample) = 0 \<and>
   sint (score highScoreExample) = 2147483600 \<and>
   sint (score (bulletVsEnemies 2 highScoreExample)) = - 2147483596 \<and>
   sint (score (bulletVsEnemies 2 highScoreExample)) \<noteq> sint (score highScoreExample) + 100"
proof -
  let ?g = highScoreExample
  note h = highScoreExample_hit
  have n: "\<not> bulletHits ?g 2 0" "\<not> bulletHits ?g 2 1" "\<not> bulletHits ?g 2 2"
    using h(6) by simp_all
  have v: "health (enemies ?g ! 3) = 10" "length (enemies ?g) = 20"
    by (simp_all add: highScoreExample_def collisionExample_def zeroGame_def Entity_init_def)
  have f: "findFree (explosions ?g) MAX_EXPLOSIONS = Some 0"
    "activeCount (particles ?g) = 0"
    by (simp_all add: findFree_Some highScoreExample_def collisionExample_def zeroGame_def
          zeroEntity_def activeCount_def)
  have s0: "score ?g = 2147483600"
    by (simp add: highScoreExample_def)
  have e: "bulletVsEnemies 2 ?g = hitEnemy 2 3 ?g"
    using h(3-6) by (rule bulletVsEnemies_first)
  have s1: "score (bulletVsEnemies 2 ?g) = 2147483600 + 100"
    unfolding e using v by (simp add: hitEnemy_score s0)
  have a: "sint (score ?g) = 2147483600" unfolding s0 by simp
  have b: "sint (score (bulletVsEnemies 2 ?g)) = - 2147483596" unfolding s1 by simp
  from h(3,5) n v(1) f a b show ?thesis by simp
qed

text \<open>
  C6, amended. When the first enemy that an active player bullet intersects has 10 hit points,
  and the explosion pool has a free slot and the particle pool at least eight, the bullet's
  scan deactivates the bullet, brings the enemy's health to 0 and deactivates it, adds 100 to
  the 32-bit score counter, writes one explosion at the enemy's position into the first free
  explosion slot (one more active explosion), and activates exactly eight more particles,
  every changed particle slot having been inactive and now holding a new particle at the
  enemy's position. The score is exactly 100 higher afterwards when it was at most 2147483547
  before; above that the counter wraps around.
\<close>

theorem lethal_hit_bookkeeping:
  assumes "wf g" "i < MAX_PLAYER_BULLETS" "active (playerBullets g ! i)"
    "j < MAX_ENEMIES" "bulletHits g i j" "\<forall>k<j. \<not> bulletHits g i k"
    "health (enemies g ! j) = 10"
    "findFree (explosions g) MAX_EXPLOSIONS = Some m"
    "activeCount (particles g) + 8 \<le> MAX_PARTICLES"
  shows "\<not> active (playerBullets (bulletVsEnemies i g) ! i) \<and>
         health (enemies (bulletVsEnemies i g) ! j) = 0 \<and>
         \<not> active (enemies (bulletVsEnemies i g) ! j) \<and>
         score (bulletVsEnemies i g) = score g + 100 \<and>
         (sint (score g) \<le> 2147483547 \<longrightarrow>
            sint (score (bulletVsEnemies i g)) = sint (score g) + 100) \<and>
         explosions (bulletVsEnemies i g) =
           (explosions g)[m := Entity_init EXPLOSION (pos (enemies g ! j)) (Vec2 0 0)
              (width (enemies g ! j)) (width (enemies g ! j)) 6 TFT_ORANGE (clock g (clockPos g))] \<and>
         activeCount (explosions (bulletVsEnemies i g)) = activeCount (explosions g) + 1 \<and>
         activeCount (particles (bulletVsEnemies i g)) = activeCount (particles g) + 8 \<and>
         burst (pos (enemies g ! j)) (particles g) (particles (bulletVsEnemies i g))"
proof -
  let ?p = "pos (enemies g ! j)" and ?w = "width (enemies g ! j)"
  let ?g2 = "g\<lparr>playerBullets := (playerBullets g)[i := deactivate (playerBullets g ! i)],
              enemies := (enemies g)[j := (enemies g ! j)\<lparr>health := health (enemies g ! j) - 10\<rparr>],
              score := score g + 100\<rparr>"
  let ?g3 = "spawnExplosionEntity ?p ?w ?g2"
  from assms(1) have l: "length (enemies g) = 20" "length (playerBullets g) = 30"
    "length (explosions g) = 10" "length (particles g) = 50"
    by (simp_all add: wf_def)
  have e: "bulletVsEnemies i g = hitEnemy i j g"
    using assms(3-6) by (rule bulletVsEnemies_first)
  have j: "j < length (enemies g)" "health (enemies g ! j) - 10 \<le> 0"
    using assms(4,7) l by simp_all
  have a: "\<not> active (playerBullets (hitEnemy i j g) ! i)"
    using l assms(2) by (simp add: hitEnemy_playerBullets deactivate_def)
  have b: "health (enemies (hitEnemy i j g) ! j) = 0" "\<not> active (enemies (hitEnemy i j g) ! j)"
    using j assms(7) by (simp_all add: hitEnemy_enemies deactivate_def)
  have c: "score (hitEnemy i j g) = score g + 100"
    using j by (simp add: hitEnemy_score)
  have m: "m < length (explosions g)" "\<not> active (explosions g ! m)"
    using assms(8) l by (simp_all add: findFree_Some)
  have x: "explosions (hitEnemy i j g) =
      (explosions g)[m := Entity_init EXPLOSION ?p (Vec2 0 0) ?w ?w 6 TFT_ORANGE (clock g (clockPos g))]"
    unfolding hitEnemy_lethal_pools(1)[OF j] spawn_pools by (simp add: assms(8))
  have xc: "activeCount (explosions (hitEnemy i j g)) = activeCount (explosions g) + 1"
    unfolding x using m by (simp add: activeCount_spawn)
  have p3: "particles ?g3 = particles g" "length (particles ?g3) = MAX_PARTICLES"
    using l by simp_all
  from particles_fold[of ?g3 8 ?p] p3 assms(9)
  have pc: "activeCount (particles (hitEnemy i j g)) = activeCount (particles g) + 8"
    "burst ?p (particles g) (particles (hitEnemy i j g))"
    unfolding hitEnemy_lethal_pools(2)[OF j] by simp_all
  from c have c': "sint (score g) \<le> 2147483547 \<longrightarrow>
      sint (score (hitEnemy i j g)) = sint (score g) + 100"
    by (simp add: sint_add_100)
  from a b c c' x xc pc show ?thesis unfolding e by simp
qed

theorem lethal_hit_bookkeeping_witness:
  "wf collisionExample \<and> active (playerBullets collisionExample ! 2) \<and>
   bulletHits collisionExample 2 3 \<and> health (enemies collisionExample ! 3) = 10 \<and>
   pos (enemies collisionExample ! 3) = Vec2 100 100 \<and>
   findFree (explosions collisionExample) MAX_EXPLOSIONS = Some 0 \<and>
   activeCount (explosions collisionExample) = 0 \<and>
   activeCount (particles collisionExample) = 0 \<and>
   \<not> active (playerBullets (bulletVsEnemies 2 collisionExample) ! 2) \<and>
   health (enemies (bulletVsEnemies 2 collisionExample) ! 3) = 0 \<and>
   \<not> active (enemies (bulletVsEnemies 2 collisionExample) ! 3) \<and>
   sint (score collisionExample) = 0 \<and>
   sint (score (bulletVsEnemies 2 collisionExample)) = 100 \<and>
   explosions (bulletVsEnemies 2 collisionExample) ! 0 =
     Entity_init EXPLOSION (Vec2 100 100) (Vec2 0 0) 20 20 6 TFT_ORANGE 0 \<and>
   activeCount (explosions (bulletVsEnemies 2 collisionExample)) = 1 \<and>
   activeCount (particles (bulletVsEnemies 2 collisionExample)) = 8 \<and>
   burst (Vec2 100 100) (particles collisionExample) (particles (bulletVsEnemies 2 collisionExample))"
proof -
  let ?g = collisionExample
  have b: "playerBullets ?g ! 2 = Entity_init BULLET_PLAYER (Vec2 100 100) (Vec2 0 (- 8)) 4 8 1 TFT_WHITE 0"
    by (simp add: collisionExample_def zeroGame_def)
  have e3: "enemies ?g ! 3 = Entity_init ENEMY_BASIC (Vec2 100 100) (Vec2 0 1.5) 20 20 10 TFT_RED 0"
    by (simp add: collisionExample_def zeroGame_def)
  have lo: "enemies ?g ! k = zeroEntity" if "k < 3" for k
    using that by (simp add: collisionExample_def zeroGame_def)
  have h: "wf ?g" "2 < MAX_PLAYER_BULLETS" "active (playerBullets ?g ! 2)" "3 < MAX_ENEMIES"
    "bulletHits ?g 2 3" "\<forall>k<3. \<not> bulletHits ?g 2 k"
    unfolding bulletHits_def b e3
    by (simp_all add: lo zeroEntity_def)
       (simp_all add: collisionExample_def zeroGame_def wf_def Entity_init_def getRect_def
          intersects_def)
  have v: "health (enemies ?g ! 3) = 10" "pos (enemies ?g ! 3) = Vec2 100 100"
    "width (enemies ?g ! 3) = 20"
    unfolding e3 by (simp_all add: Entity_init_def)
  have f: "findFree (explosions ?g) MAX_EXPLOSIONS = Some 0"
    by (simp add: findFree_Some collisionExample_def zeroGame_def zeroEntity_def)
  have z: "activeCount (explosions ?g) = 0" "activeCount (particles ?g) = 0" "score ?g = 0"
    "clock ?g (clockPos ?g) = 0" "length (explosions ?g) = 10"
    by (simp_all add: collisionExample_def zeroGame_def activeCount_def zeroEntity_def)
  have p: "activeCount (particles ?g) + 8 \<le> MAX_PARTICLES"
    unfolding z by simp
  note t = lethal_hit_bookkeeping[OF h v(1) f p, unfolded v z]
  from t have t1: "\<not> active (playerBullets (bulletVsEnemies 2 ?g) ! 2)"
    "health (enemies (bulletVsEnemies 2 ?g) ! 3) = 0"
    "\<not> active (enemies (bulletVsEnemies 2 ?g) ! 3)"
    "burst (Vec2 100 100) (particles ?g) (particles (bulletVsEnemies 2 ?g))"
    by blast+
  from t have t2: "activeCount (explosions (bulletVsEnemies 2 ?g)) = 1"
    "activeCount (particles (bulletVsEnemies 2 ?g)) = 8"
    by linarith+
  from t have "sint (0 :: 32 word) \<le> 2147483547 \<longrightarrow>
      sint (score (bulletVsEnemies 2 ?g)) = sint (0 :: 32 word) + 100"
    by blast
  then have t4: "sint (score ?g) = 0" "sint (score (bulletVsEnemies 2 ?g)) = 100"
    using z(3) by simp_all
  from t have "explosions (bulletVsEnemies 2 ?g) =
      (explosions ?g)[0 := Entity_init EXPLOSION (Vec2 100 100) (Vec2 0 0) 20 20 6 TFT_ORANGE 0]"
    by blast
  then have t3: "explosions (bulletVsEnemies 2 ?g) ! 0 =
      Entity_init EXPLOSION (Vec2 100 100) (Vec2 0 0) 20 20 6 TFT_ORANGE 0"
    using z(5) by simp
  from h(1,3,5) v(1,2) f z(1,2) t1 t2 t3 t4 show ?thesis by blast
qed

section \<open>The lives counter\<close>

text \<open>Rules that run the loops of a frame on a given state, index by index.\<close>

lemma find_upt_eval:
  "i < n \<Longrightarrow> find P [i..<n] = (if P i then Some i else find P [i + 1..<n])"
  "\<not> i < n \<Longrightarrow> find P [i..<n] = None"
  by (simp_all add: upt_conv_Cons)

lemma fold_upt_eval:
  "i < n \<Longrightarrow> fold f [i..<n] s = fold f [i + 1..<n] (f i s)"
  "\<not> i < n \<Longrightarrow> fold f [i..<n] s = s"
  by (simp_all add: upt_conv_Cons)

lemma funpow_eval:
  "0 < n \<Longrightarrow> (f ^^ n) x = (f ^^ (n - 1)) (f x)"
  "(f ^^ 0) x = x"
  by (cases n, simp_all add: funpow_swap1)

lemma updatePowerups_eq:
  assumes "wf g"
  shows "updatePowerups g =
     g\<lparr>powerups := map (\<lambda>b. if active b then movePowerup b else b) (powerups g)\<rparr>"
proof -
  from assms have l: "length (powerups g) = 5" by (simp add: wf_def)
  have e: "updatePowerup = (\<lambda>i g. g\<lparr>powerups :=
      (powerups g)[i := if active (powerups g ! i) then movePowerup (powerups g ! i) else powerups g ! i]\<rparr>)"
    by (rule ext, rule ext) (simp add: updatePowerup_def)
  show ?thesis
    unfolding updatePowerups_def e
    by (simp add: l
          fold_powerups[where F="\<lambda>i xs. xs[i := if active (xs ! i) then movePowerup (xs ! i) else xs ! i]"]
          fold_upd_map[where h="\<lambda>b. if active b then movePowerup b else b"])
qed

lemma updateParticles_eq:
  assumes "wf g"
  shows "updateParticles g =
     g\<lparr>particles := map (\<lambda>b. if active b then moveParticle b else b) (particles g)\<rparr>"
proof -
  from assms have l: "length (particles g) = 50" by (simp add: wf_def)
  have e: "updateParticle = (\<lambda>i g. g\<lparr>particles :=
      (particles g)[i := if active (particles g ! i) then moveParticle (particles g ! i) else particles g ! i]\<rparr>)"
    by (rule ext, rule ext) (simp add: updateParticle_def)
  show ?thesis
    unfolding updateParticles_def e
    by (simp add: l
          fold_particles[where F="\<lambda>i xs. xs[i := if active (xs ! i) then moveParticle (xs ! i) else xs ! i]"]
          fold_upd_map[where h="\<lambda>b. if active b then moveParticle b else b"])
qed

lemmas frame_eval =
  update_def startGame_def updatePlayer_def spawnEnemies_def updateEnemies_def updateEnemy_def
  updateBullets_eq updatePowerups_eq updateParticles_eq updateExplosions_def
  updateExplosion_def checkCollisions_def bulletVsEnemies_def hitEnemy_def
  enemyBulletVsPlayer_def enemyVsPlayer_def powerupVsPlayer_def spawnEnemy_def
  spawnEnemyBullet_def spawnPlayerBullet_def spawnParticle_def spawnExplosion_def
  spawnExplosionEntity_def spawnPowerup_def millis_def random_def play_def findFree_def
  find_upt_eval fold_upt_eval funpow_eval Let_def selectEnemyType_def enemyStats_def
  Entity_init_def getRect_def intersects_def deactivate_def vadd_def vsub_def vscale_def
  normalize_def vlength_def constrain_def movePlayerBullet_def moveEnemyBullet_def
  movePowerup_def moveParticle_def wf_def steadyClock_def luckyDraws_def upInput_def init_eq
  zeroGame_def zeroEntity_def map_update

text \<open>
  The state after 40 calls: the player has moved up to \<open>y = 65\<close>, the enemy has come down
  to \<open>y = 38.5\<close>, and its three bullets are at \<open>y = 44.5\<close>, \<open>43\<close> and \<open>41.5\<close>, all in
  column 240.
\<close>

lemma ambush_40:
  "ambush 40 =
     \<lparr>player = Entity_init PLAYER (Vec2 240 65) (Vec2 0 (- 5)) 24 24 100 TFT_CYAN 3033,
      enemies = (replicate MAX_ENEMIES zeroEntity)
        [0 := Entity_init ENEMY_BASIC (Vec2 240 38.5) (Vec2 0 1.5) 20 20 10 TFT_RED 3099],
      playerBullets = replicate MAX_PLAYER_BULLETS zeroEntity,
      enemyBullets = (replicate MAX_ENEMY_BULLETS zeroEntity)
        [0 := Entity_init BULLET_ENEMY (Vec2 240 44.5) (Vec2 0 3) 4 8 1 TFT_ORANGE 4353,
         1 := Entity_init BULLET_ENEMY (Vec2 240 43) (Vec2 0 3) 4 8 1 TFT_ORANGE 4452,
         2 := Entity_init BULLET_ENEMY (Vec2 240 41.5) (Vec2 0 3) 4 8 1 TFT_ORANGE 4551],
      powerups = replicate MAX_POWERUPS zeroEntity,
      explosions = replicate MAX_EXPLOSIONS zeroEntity,
      particles = replicate MAX_PARTICLES zeroEntity,
      score = 0, lives = 3, wave = 1, scrollY = 6, lastEnemySpawn = 3132, lastPlayerShot = 0,
      playerWeaponLevel = 1, state = PLAYING,
      sound = \<lparr>currentSound = (800, 40), soundStartTime = 4584, isPlaying = True\<rparr>,
      clock = steadyClock, clockPos = 49, rng = luckyDraws, rngPos = 41\<rparr>"
  unfolding ambush_def
  by (simp add: frame_eval wf_zeroGame del: One_nat_def cong: let_weak_cong)

lemma ambush_step: "ambush (Suc k) = update upInput (ambush k)"
  by (simp add: ambush_def)

lemma reachable_ambush: "reachable (ambush k)"
  by (induction k) (simp_all add: ambush_def reachable.boot wf_zeroGame reachable.frame)

text \<open>
  In call 41 the player moves to \<open>y = 60\<close> (its box reaches up to 48), the enemy to
  \<open>y = 40\<close> (its box reaches down to 50) and the bullets to \<open>47.5\<close>, \<open>46\<close> and \<open>44.5\<close>
  (their boxes reach down to 51.5, 50 and 48.5): all three bullets and the enemy intersect the
  player, and each of the four costs a life.
\<close>

lemma ambush_41: "lives (ambush 41) = - 1" "state (ambush 41) = GAME_OVER"
proof -
  have s: "ambush 41 = update upInput (ambush 40)"
    using ambush_step[of 40] by simp
  show "lives (ambush 41) = - 1" "state (ambush 41) = GAME_OVER"
    unfolding s ambush_40
    by (simp_all add: frame_eval del: One_nat_def cong: let_weak_cong)
qed

text \<open>
  C3, as the specification states it, fails: the run above reaches, from a Playing state with
  3 lives, a state with \<open>-1\<close> lives. Nothing clamps the counter from below.
\<close>

theorem lives_negative_counterexample:
  "reachable (ambush 40) \<and> state (ambush 40) = PLAYING \<and> lives (ambush 40) = 3 \<and>
   reachable (ambush 41) \<and> lives (ambush 41) = - 1 \<and> lives (ambush 41) < 0"
  using reachable_ambush[of 40] reachable_ambush[of 41] ambush_41
  by (simp add: ambush_40)

text \<open>
  C3, amended. In every reachable state the lives counter is at most 5 and at least \<open>-59\<close>;
  it is at least 1 in every state that is not Game-Over, and at most 0 in every Game-Over
  state. (A frame starts with at least 1 life, each of the 40 enemy bullets and 20 enemies can
  cost one, and a health powerup never raises the counter above 5.)
\<close>

theorem lives_bounds:
  assumes "reachable g"
  shows "lives g \<le> 5 \<and> - 59 \<le> lives g \<and> (state g = GAME_OVER \<longrightarrow> lives g \<le> 0) \<and>
         (state g \<noteq> GAME_OVER \<longrightarrow> 1 \<le> lives g)"
  using reachable_invariant[OF assms] by simp

theorem lives_bounds_witness:
  "reachable (ambush 40) \<and> state (ambush 40) \<noteq> GAME_OVER \<and> 1 \<le> lives (ambush 40) \<and>
   lives (ambush 40) \<le> 5 \<and>
   reachable (ambush 41) \<and> state (ambush 41) = GAME_OVER \<and> lives (ambush 41) \<le> 0 \<and>
   - 59 \<le> lives (ambush 41)"
proof -
  have s: "state (ambush 40) \<noteq> GAME_OVER" by (simp add: ambush_40)
  from lives_bounds[OF reachable_ambush[of 40]] lives_bounds[OF reachable_ambush[of 41]]
    reachable_ambush[of 40] reachable_ambush[of 41] s ambush_41(2)
  show ?thesis by simp
qed

section \<open>The pools in the run\<close>


end
